theory Spec2Isabelle
  imports Main "HOL-Library.Product_Lexorder" "HOL-Library.Monad_Syntax"
begin

section \<open>Exceptions\<close>

text \<open>
  Every failure of the connector is a Python exception derived from \<open>Exception\<close>.
  The code distinguishes only \<open>requests.exceptions.HTTPError\<close> (which carries the
  response's status code and text) from all other exceptions. A function that may raise
  returns \<open>exn + 'a\<close>, with \<open>Inl\<close> for the raised exception.
\<close>

datatype exn =
    HTTPError nat string
  | ValueError
  | OverflowError
  | OtherException string

section \<open>Timestamps: the naive \<open>datetime\<close> of the standard library\<close>

text \<open>
  Every timestamp the connector creates is a naive \<open>datetime\<close> (no time zone):
  \<open>datetime(2008, 1, 1)\<close>, \<open>datetime.utcnow()\<close>, \<open>datetime.strptime\<close> with a
  format without \<open>%z\<close>, and \<open>datetime.fromisoformat\<close> of a line that
  \<open>isoformat\<close> wrote. A \<open>datetime\<close> object always satisfies \<open>valid_datetime\<close>:
  the constructor raises \<open>ValueError\<close> otherwise.
\<close>

record datetime =
  year :: nat
  month :: nat
  day :: nat
  hour :: nat
  minute :: nat
  second :: nat
  microsecond :: nat

definition is_leap :: "nat \<Rightarrow> bool" where
  "is_leap y = (y mod 4 = 0 \<and> (y mod 100 \<noteq> 0 \<or> y mod 400 = 0))"

definition days_in_month :: "nat \<Rightarrow> nat \<Rightarrow> nat" where
  "days_in_month y m =
     (if m = 2 then (if is_leap y then 29 else 28)
      else if m = 4 \<or> m = 6 \<or> m = 9 \<or> m = 11 then 30 else 31)"

definition valid_datetime :: "datetime \<Rightarrow> bool" where
  "valid_datetime d =
     (1 \<le> year d \<and> year d \<le> 9999 \<and> 1 \<le> month d \<and> month d \<le> 12 \<and>
      1 \<le> day d \<and> day d \<le> days_in_month (year d) (month d) \<and>
      hour d < 24 \<and> minute d < 60 \<and> second d < 60 \<and> microsecond d < 1000000)"

text \<open>The constructor \<open>datetime(year, month, day, hour, minute, second, microsecond)\<close>.\<close>

definition datetime_new ::
  "nat \<Rightarrow> nat \<Rightarrow> nat \<Rightarrow> nat \<Rightarrow> nat \<Rightarrow> nat \<Rightarrow> nat \<Rightarrow> exn + datetime" where
  "datetime_new y m d hh mm ss us =
     (let t = \<lparr>year = y, month = m, day = d, hour = hh, minute = mm, second = ss,
               microsecond = us\<rparr>
      in if valid_datetime t then Inr t else Inl ValueError)"

text \<open>Chronological order of naive timestamps: lexicographic on the fields.\<close>

definition dt_key :: "datetime \<Rightarrow> nat \<times> nat \<times> nat \<times> nat \<times> nat \<times> nat \<times> nat" where
  "dt_key d = (year d, month d, day d, hour d, minute d, second d, microsecond d)"

definition dt_le :: "datetime \<Rightarrow> datetime \<Rightarrow> bool" where
  "dt_le a b = (dt_key a \<le> dt_key b)"

definition dt_less :: "datetime \<Rightarrow> datetime \<Rightarrow> bool" where
  "dt_less a b = (dt_key a < dt_key b)"

subsection \<open>Decimal fields\<close>

definition digit_char :: "nat \<Rightarrow> char" where
  "digit_char n = ''0123456789'' ! (n mod 10)"

text \<open>The value of a decimal digit is its code minus the code of \<open>0\<close>, which is 48.\<close>

definition digit_val :: "char \<Rightarrow> nat option" where
  "digit_val c =
     (let n = (of_char c :: nat) in if 48 \<le> n \<and> n \<le> 57 then Some (n - 48) else None)"

definition is_digit :: "char \<Rightarrow> bool" where
  "is_digit c = (digit_val c \<noteq> None)"

text \<open>
  \<open>fmt_0d w k\<close> is \<open>"%0wd" % k\<close> for \<open>k < 10 ^ w\<close>: exactly \<open>w\<close> digits, padded with
  zeros. The fields of a valid timestamp are below that bound (year below \<open>10 ^ 4\<close>,
  microsecond below \<open>10 ^ 6\<close>, the others below \<open>10 ^ 2\<close>).
\<close>

primrec fmt_0d :: "nat \<Rightarrow> nat \<Rightarrow> string" where
  "fmt_0d 0 k = []"
| "fmt_0d (Suc w) k = fmt_0d w (k div 10) @ [digit_char (k mod 10)]"

text \<open>The value of a string of decimal digits; \<open>None\<close> when a character is no digit.\<close>

primrec digits_acc :: "nat \<Rightarrow> string \<Rightarrow> nat option" where
  "digits_acc acc [] = Some acc"
| "digits_acc acc (c # cs) =
     (case digit_val c of None \<Rightarrow> None | Some v \<Rightarrow> digits_acc (acc * 10 + v) cs)"

definition parse_digits :: "string \<Rightarrow> nat option" where
  "parse_digits s = digits_acc 0 s"

subsection \<open>\<open>datetime.isoformat()\<close>\<close>

text \<open>
  \<open>"%04d-%02d-%02dT%02d:%02d:%02d"\<close>, followed by \<open>".%06d"\<close> of the microsecond when it
  is not zero.
\<close>

definition isoformat :: "datetime \<Rightarrow> string" where
  "isoformat d =
     fmt_0d 4 (year d) @ ''-'' @ fmt_0d 2 (month d) @ ''-'' @ fmt_0d 2 (day d) @ ''T'' @
     fmt_0d 2 (hour d) @ '':'' @ fmt_0d 2 (minute d) @ '':'' @ fmt_0d 2 (second d) @
     (if microsecond d = 0 then [] else ''.'' @ fmt_0d 6 (microsecond d))"

subsection \<open>\<open>datetime.fromisoformat\<close>\<close>

text \<open>
  Python 3.7 documents the accepted strings as
  \<open>YYYY-MM-DD[*HH[:MM[:SS[.fff[fff]]]][+HH:MM[:SS[.ffffff]]]]\<close>, where \<open>*\<close> is any single
  character; every other string raises \<open>ValueError\<close>, and so does a field out of range
  (through the constructor). The model covers the strings without a UTC offset, the
  ones that denote naive timestamps: the lengths 10, 13, 16, 19, 23 and 26. A string
  with an offset, which the connector never writes, is rejected here too.
\<close>

definition sep_at :: "string \<Rightarrow> nat \<Rightarrow> char \<Rightarrow> bool" where
  "sep_at s i c = (i < length s \<and> s ! i = c)"

definition field_at :: "string \<Rightarrow> nat \<Rightarrow> nat \<Rightarrow> nat option" where
  "field_at s i n = (if i + n \<le> length s then parse_digits (take n (drop i s)) else None)"

definition fromisoformat_fields :: "string \<Rightarrow> (nat \<times> nat \<times> nat \<times> nat \<times> nat \<times> nat \<times> nat) option" where
  "fromisoformat_fields s =
     (let n = length s in
      if n \<noteq> 10 \<and> n \<noteq> 13 \<and> n \<noteq> 16 \<and> n \<noteq> 19 \<and> n \<noteq> 23 \<and> n \<noteq> 26 then None
      else if \<not> (sep_at s 4 (CHR ''-'') \<and> sep_at s 7 (CHR ''-'')) then None
      else if 16 \<le> n \<and> \<not> sep_at s 13 (CHR '':'') then None
      else if 19 \<le> n \<and> \<not> sep_at s 16 (CHR '':'') then None
      else if 23 \<le> n \<and> \<not> sep_at s 19 (CHR ''.'') then None
      else do {
        y \<leftarrow> field_at s 0 4;
        m \<leftarrow> field_at s 5 2;
        d \<leftarrow> field_at s 8 2;
        hh \<leftarrow> (if 13 \<le> n then field_at s 11 2 else Some 0);
        mm \<leftarrow> (if 16 \<le> n then field_at s 14 2 else Some 0);
        ss \<leftarrow> (if 19 \<le> n then field_at s 17 2 else Some 0);
        us \<leftarrow> (if n = 23 then map_option (\<lambda>v. v * 1000) (field_at s 20 3)
              else if n = 26 then field_at s 20 6 else Some 0);
        Some (y, m, d, hh, mm, ss, us)
      })"

definition fromisoformat :: "string \<Rightarrow> exn + datetime" where
  "fromisoformat s =
     (case fromisoformat_fields s of
        None \<Rightarrow> Inl ValueError
      | Some (y, m, d, hh, mm, ss, us) \<Rightarrow> datetime_new y m d hh mm ss us)"

subsection \<open>\<open>datetime.strptime(s, '%Y-%m-%dT%H:%M:%S')\<close>\<close>

text \<open>
  \<open>strptime\<close> compiles the format to a regular expression, matched ignoring case from
  the start of the string, and raises \<open>ValueError\<close> when it does not match or when
  characters remain:
  \<^item> \<open>%Y\<close> is \<open>\d\d\d\d\<close>;
  \<^item> \<open>%m\<close> is \<open>1[0-2]|0[1-9]|[1-9]\<close>;
  \<^item> \<open>%d\<close> is \<open>3[01]|[12]\d|0[1-9]|[1-9]| [1-9]\<close>;
  \<^item> \<open>%H\<close> is \<open>2[0-3]|[0-1]\d|\d\<close>;
  \<^item> \<open>%M\<close> is \<open>[0-5]\d|\d\<close>;
  \<^item> \<open>%S\<close> is \<open>6[0-1]|[0-5]\d|\d\<close>.
  Each field is followed by a character that is no digit (or by the end of the string),
  so a field matches exactly when the whole run of digits at its place is one of the
  alternatives. The fields then go through the constructor, which raises
  \<open>ValueError\<close> for the year 0, a day beyond the month's length and the seconds 60
  and 61.
\<close>

text \<open>
  \<open>num_field lo hi s\<close>: the run of digits at the head of \<open>s\<close> has one or two digits and
  a value in \<open>lo..hi\<close> (given the two-digit alternatives, this is what the alternation
  accepts); returns the value and the rest of the string.
\<close>

definition num_field :: "nat \<Rightarrow> nat \<Rightarrow> string \<Rightarrow> (nat \<times> string) option" where
  "num_field lo hi s =
     (let ds = takeWhile is_digit s; r = dropWhile is_digit s in
      if length ds \<noteq> 1 \<and> length ds \<noteq> 2 then None
      else (case parse_digits ds of
              None \<Rightarrow> None
            | Some v \<Rightarrow> if lo \<le> v \<and> v \<le> hi then Some (v, r) else None))"

definition year_field :: "string \<Rightarrow> (nat \<times> string) option" where
  "year_field s =
     (let ds = takeWhile is_digit s; r = dropWhile is_digit s in
      if length ds \<noteq> 4 then None
      else (case parse_digits ds of None \<Rightarrow> None | Some v \<Rightarrow> Some (v, r)))"

definition day_field :: "string \<Rightarrow> (nat \<times> string) option" where
  "day_field s =
     (case s of
        c # d # r \<Rightarrow>
          if c = CHR '' '' then
            (if is_digit d \<and> d \<noteq> CHR ''0'' \<and> (r = [] \<or> \<not> is_digit (hd r))
             then map_option (\<lambda>v. (v, r)) (digit_val d) else None)
          else num_field 1 31 s
      | _ \<Rightarrow> num_field 1 31 s)"

definition literal :: "char list \<Rightarrow> string \<Rightarrow> string option" where
  "literal cs s = (case s of [] \<Rightarrow> None | c # r \<Rightarrow> if c \<in> set cs then Some r else None)"

definition strptime_fields :: "string \<Rightarrow> (nat \<times> nat \<times> nat \<times> nat \<times> nat \<times> nat) option" where
  "strptime_fields s = do {
     (y, r1) \<leftarrow> year_field s;
     r2 \<leftarrow> literal ''-'' r1;
     (m, r3) \<leftarrow> num_field 1 12 r2;
     r4 \<leftarrow> literal ''-'' r3;
     (d, r5) \<leftarrow> day_field r4;
     r6 \<leftarrow> literal ''Tt'' r5;
     (hh, r7) \<leftarrow> num_field 0 23 r6;
     r8 \<leftarrow> literal '':'' r7;
     (mm, r9) \<leftarrow> num_field 0 59 r8;
     r10 \<leftarrow> literal '':'' r9;
     (ss, r11) \<leftarrow> num_field 0 61 r10;
     if r11 \<noteq> [] then None else Some (y, m, d, hh, mm, ss)
   }"

definition strptime_iso :: "string \<Rightarrow> exn + datetime" where
  "strptime_iso s =
     (case strptime_fields s of
        None \<Rightarrow> Inl ValueError
      | Some (y, m, d, hh, mm, ss) \<Rightarrow> datetime_new y m d hh mm ss 0)"

text \<open>\<open>s.split('.')[0]\<close>: the part of \<open>s\<close> before its first full stop, all of \<open>s\<close> if it has none.\<close>

definition split_dot_0 :: "string \<Rightarrow> string" where
  "split_dot_0 s = takeWhile (\<lambda>c. c \<noteq> CHR ''.'') s"

section \<open>Text files\<close>

text \<open>
  Text is a list of 8-bit characters (code points below 256). \<open>str.strip()\<close> removes
  the leading and trailing characters for which \<open>str.isspace\<close> holds.
\<close>

definition py_isspace :: "char \<Rightarrow> bool" where
  "py_isspace c =
     (let n = (of_char c :: nat) in
      (9 \<le> n \<and> n \<le> 13) \<or> (28 \<le> n \<and> n \<le> 32) \<or> n = 133 \<or> n = 160)"

definition strip :: "string \<Rightarrow> string" where
  "strip s = rev (dropWhile py_isspace (rev (dropWhile py_isspace s)))"

text \<open>
  A file opened with \<open>open(name, 'r')\<close> is read with universal newlines: \<open>\r\n\<close> and a
  lone \<open>\r\<close> are read as \<open>\n\<close>. \<open>readlines()\<close> cuts the text after each \<open>\n\<close>; every
  line keeps its terminator, and the last line has none when the text does not end
  with one.
\<close>

fun universal_newlines :: "string \<Rightarrow> string" where
  "universal_newlines [] = []"
| "universal_newlines [c] = (if c = CHR 0x0D then [CHR 0x0A] else [c])"
| "universal_newlines (c # d # cs) =
     (if c = CHR 0x0D then
        (if d = CHR 0x0A then CHR 0x0A # universal_newlines cs
         else CHR 0x0A # universal_newlines (d # cs))
      else c # universal_newlines (d # cs))"

primrec lines_from :: "string \<Rightarrow> string \<Rightarrow> string list" where
  "lines_from cur [] = (if cur = [] then [] else [cur])"
| "lines_from cur (c # cs) =
     (if c = CHR 0x0A then (cur @ [c]) # lines_from [] cs else lines_from (cur @ [c]) cs)"

definition readlines :: "string \<Rightarrow> string list" where
  "readlines content = lines_from [] (universal_newlines content)"

text \<open>
  The file system maps a path to the text of the file there; \<open>None\<close> when no file
  exists. \<open>os.path.join\<close> on POSIX: an absolute second component replaces the first.
\<close>

type_synonym files = "string \<rightharpoonup> string"

definition path_join :: "string \<Rightarrow> string \<Rightarrow> string" where
  "path_join a b =
     (if b \<noteq> [] \<and> hd b = CHR ''/'' then b
      else if a = [] \<or> last a = CHR ''/'' then a @ b
      else a @ ''/'' @ b)"

definition tracking_file :: "string \<Rightarrow> string \<Rightarrow> string" where
  "tracking_file home implementation_name =
     path_join home (''.panopto-connector.'' @ implementation_name)"

section \<open>The checkpoint store\<close>

definition default_last_update_time :: datetime where
  "default_last_update_time =
     \<lparr>year = 2008, month = 1, day = 1, hour = 0, minute = 0, second = 0, microsecond = 0\<rparr>"

text \<open>\<open>get_last_update_time\<close>; \<open>home\<close> is \<open>os.path.expanduser('~')\<close>.\<close>

definition get_last_update_time :: "string \<Rightarrow> string \<Rightarrow> files \<Rightarrow> exn + datetime" where
  "get_last_update_time home implementation_name fs =
     (case fs (tracking_file home implementation_name) of
        None \<Rightarrow> Inr default_last_update_time
      | Some content \<Rightarrow>
          (let lines = readlines content in
           if lines = [] then Inr default_last_update_time
           else fromisoformat (strip (last lines))))"

text \<open>\<open>save_last_update_time\<close>: mode \<open>'a'\<close> creates the file when there is none.\<close>

definition save_last_update_time :: "datetime \<Rightarrow> string \<Rightarrow> string \<Rightarrow> files \<Rightarrow> files" where
  "save_last_update_time last_update_time home implementation_name fs =
     (let file_name = tracking_file home implementation_name;
          old = (case fs file_name of None \<Rightarrow> [] | Some content \<Rightarrow> content)
      in fs(file_name \<mapsto> old @ isoformat last_update_time @ [CHR 0x0A]))"

section \<open>Time arithmetic\<close>

text \<open>
  A \<open>timedelta\<close> is a number of microseconds. \<open>to_us d\<close> is the number of
  microseconds from \<open>0001-01-01T00:00:00\<close> to \<open>d\<close> in the proleptic Gregorian calendar,
  so that \<open>a - b\<close> on timestamps is \<open>to_us a - to_us b\<close>. Adding a \<open>timedelta\<close> to a
  timestamp raises \<open>OverflowError\<close> when the result leaves the years 1 to 9999.
\<close>

type_synonym timedelta = int

definition days_before_year :: "nat \<Rightarrow> nat" where
  "days_before_year y = (y - 1) * 365 + (y - 1) div 4 - (y - 1) div 100 + (y - 1) div 400"

definition days_before_month :: "nat \<Rightarrow> nat \<Rightarrow> nat" where
  "days_before_month y m = sum_list (map (days_in_month y) [1..<m])"

definition to_us :: "datetime \<Rightarrow> int" where
  "to_us d =
     (((int (days_before_year (year d) + days_before_month (year d) (month d) + day d) - 1)
        * 24 + int (hour d)) * 3600 + int (minute d) * 60 + int (second d)) * 1000000
     + int (microsecond d)"

definition max_datetime :: datetime where
  "max_datetime =
     \<lparr>year = 9999, month = 12, day = 31, hour = 23, minute = 59, second = 59,
      microsecond = 999999\<rparr>"

text \<open>
  \<open>a + delta\<close> for a timestamp \<open>a\<close>: the sum, as microseconds since \<open>0001-01-01T00:00:00\<close>,
  or \<open>OverflowError\<close>.
\<close>

definition datetime_add :: "datetime \<Rightarrow> timedelta \<Rightarrow> exn + int" where
  "datetime_add a delta =
     (if to_us a + delta < 0 \<or> to_us max_datetime < to_us a + delta then Inl OverflowError
      else Inr (to_us a + delta))"

section \<open>Configuration and messages\<close>

record oauth_credentials =
  client_id :: string
  client_secret :: string
  grant_type :: string
  username :: "string option"
  password :: "string option"

record connector_config =
  panopto_site_address :: string
  panopto_oauth_credentials :: oauth_credentials
  target_implementation :: string
  polling_frequency :: timedelta
  polling_retry_minimum :: timedelta

text \<open>
  The responses of the two source endpoints, decoded: the change list
  \<open>{Updates: [{VideoId, UpdateTime}], NextToken}\<close> and the content of one video
  \<open>{Id, Deleted, ...}\<close>.
\<close>

record update =
  VideoId :: string
  UpdateTime :: string

record updates_response =
  Updates :: "update list"
  NextToken :: "string option"

record video_content =
  vc_Id :: string
  vc_Deleted :: bool
  vc_fields :: string

section \<open>The outside world\<close>

text \<open>
  What the connector calls and does not define: the clock, \<open>time.sleep\<close>, the HTTP
  requests to the source (each with \<open>raise_for_status\<close> and the decoding of the
  response) and the target handler. Each is a function of the state \<open>'w\<close> of the outside
  world that returns the new state; a call that may raise returns \<open>exn + 'a\<close>.
  Durations are in microseconds.
\<close>

record 'w env =
  home_dir :: string
  clock_utcnow :: "'w \<Rightarrow> datetime \<times> 'w"
  time_sleep :: "timedelta \<Rightarrow> 'w \<Rightarrow> 'w"
  post_token :: "string \<Rightarrow> (string \<times> string) list \<Rightarrow> 'w \<Rightarrow> (exn + string) \<times> 'w"
  get_updates ::
    "string \<Rightarrow> string \<Rightarrow> datetime \<Rightarrow> string option \<Rightarrow> 'w \<Rightarrow> (exn + updates_response) \<times> 'w"
  get_content :: "string \<Rightarrow> string \<Rightarrow> string \<Rightarrow> 'w \<Rightarrow> (exn + video_content) \<times> 'w"
  new_target_handler :: "connector_config \<Rightarrow> 'w \<Rightarrow> (exn + unit) \<times> 'w"
  delete_from_target :: "string \<Rightarrow> 'w \<Rightarrow> (exn + unit) \<times> 'w"
  convert_to_target :: "video_content \<Rightarrow> 'w \<Rightarrow> (exn + string) \<times> 'w"
  push_to_target :: "string \<Rightarrow> connector_config \<Rightarrow> 'w \<Rightarrow> (exn + unit) \<times> 'w"

text \<open>
  The trace records, in order, what a run did that the properties proved below speak of: each reading
  of the clock, each call of \<open>get_ids_to_update\<close> and of \<open>sync_video_by_id\<close> with how it
  ended, each sleep, each save of the watermark, and the warnings and errors logged.
\<close>

datatype event =
    Ev_utcnow datetime
  | Ev_get_ids_to_update datetime "string option" "exn + updates_response"
  | Ev_sync_video_by_id string "exn option"
  | Ev_sleep timedelta
  | Ev_save datetime
  | Ev_warning string
  | Ev_exception string exn

record 'w state =
  world :: 'w
  files :: files
  trace :: "event list"

definition log_event :: "event \<Rightarrow> 'w state \<Rightarrow> 'w state" where
  "log_event ev s = s\<lparr>trace := trace s @ [ev]\<rparr>"

definition call :: "('w \<Rightarrow> 'a \<times> 'w) \<Rightarrow> 'w state \<Rightarrow> 'a \<times> 'w state" where
  "call f s = (case f (world s) of (r, w) \<Rightarrow> (r, s\<lparr>world := w\<rparr>))"

definition utcnow :: "'w env \<Rightarrow> 'w state \<Rightarrow> datetime \<times> 'w state" where
  "utcnow env s = (case call (clock_utcnow env) s of (t, s1) \<Rightarrow> (t, log_event (Ev_utcnow t) s1))"

definition sleep :: "'w env \<Rightarrow> timedelta \<Rightarrow> 'w state \<Rightarrow> 'w state" where
  "sleep env delta s = log_event (Ev_sleep delta) (s\<lparr>world := time_sleep env delta (world s)\<rparr>)"

section \<open>Methods\<close>

definition get_ids_to_update ::
  "'w env \<Rightarrow> string \<Rightarrow> string \<Rightarrow> datetime \<Rightarrow> string option \<Rightarrow> 'w state
   \<Rightarrow> (exn + updates_response) \<times> 'w state" where
  "get_ids_to_update env oauth_token site from_date next_token s =
     (let url = site @ ''/Panopto/api/v1/searchIndexSync/updates?'' in
      case call (get_updates env url oauth_token from_date next_token) s of
        (r, s1) \<Rightarrow> (r, log_event (Ev_get_ids_to_update from_date next_token r) s1))"

definition get_oauth_token ::
  "'w env \<Rightarrow> string \<Rightarrow> oauth_credentials \<Rightarrow> 'w state \<Rightarrow> (exn + string) \<times> 'w state" where
  "get_oauth_token env site creds s =
     (let url = site @ ''/Panopto/oauth2/connect/token'';
          data = [(''client_id'', client_id creds), (''client_secret'', client_secret creds),
                  (''grant_type'', grant_type creds), (''scope'', ''api'')]
                 @ (case username creds of
                      None \<Rightarrow> [] | Some u \<Rightarrow> if u = [] then [] else [(''username'', u)])
                 @ (case password creds of
                      None \<Rightarrow> [] | Some p \<Rightarrow> if p = [] then [] else [(''password'', p)])
      in call (post_token env url data) s)"

definition get_video_content ::
  "'w env \<Rightarrow> string \<Rightarrow> string \<Rightarrow> string \<Rightarrow> 'w state \<Rightarrow> (exn + video_content) \<times> 'w state" where
  "get_video_content env oauth_token site video_id s =
     (let url = site @ ''/Panopto/api/v1/searchIndexSync/content?'' in
      call (get_content env url oauth_token video_id) s)"

definition sync_video_by_id ::
  "'w env \<Rightarrow> string \<Rightarrow> connector_config \<Rightarrow> string \<Rightarrow> 'w state \<Rightarrow> (exn + unit) \<times> 'w state" where
  "sync_video_by_id env oauth_token config video_id s =
     (case get_video_content env oauth_token (panopto_site_address config) video_id s of
        (Inl ex, s1) \<Rightarrow> (Inl ex, s1)
      | (Inr video_content_response, s1) \<Rightarrow>
          if vc_Deleted video_content_response
          then call (delete_from_target env (vc_Id video_content_response)) s1
          else
            (case call (convert_to_target env video_content_response) s1 of
               (Inl ex, s2) \<Rightarrow> (Inl ex, s2)
             | (Inr target_content, s2) \<Rightarrow> call (push_to_target env target_content config) s2))"

section \<open>System layer\<close>

text \<open>
  The body of \<open>for update in get_ids_response['Updates']\<close>, from the candidate watermark
  \<open>new_last_update_time\<close>. It returns the exception that left the loop, if any, and the
  candidate watermark. The sleep is \<open>time.sleep(2)\<close>.
\<close>

primrec sync_updates ::
  "'w env \<Rightarrow> string \<Rightarrow> connector_config \<Rightarrow> update list \<Rightarrow> datetime \<Rightarrow> 'w state
   \<Rightarrow> exn option \<times> datetime \<times> 'w state" where
  "sync_updates env oauth_token config [] new_last_update_time s =
     (None, new_last_update_time, s)"
| "sync_updates env oauth_token config (u # us) new_last_update_time s =
     (let update_time_str = split_dot_0 (UpdateTime u) in
      case strptime_iso update_time_str of
        Inl ex \<Rightarrow> (Some ex, new_last_update_time, s)
      | Inr update_time \<Rightarrow>
          (case sync_video_by_id env oauth_token config (VideoId u) s of
             (Inl ex, s1) \<Rightarrow>
               (Some ex, new_last_update_time,
                log_event (Ev_sync_video_by_id (VideoId u) (Some ex)) s1)
           | (Inr _, s1) \<Rightarrow>
               sync_updates env oauth_token config us update_time
                 (sleep env 2000000 (log_event (Ev_sync_video_by_id (VideoId u) None) s1))))"

text \<open>
  \<open>for _ in range(n)\<close> with its \<open>else\<close> clause, which runs when the range is used up
  without \<open>break\<close>. \<open>last_update_time\<close>, the \<open>fromDate\<close> of every request of the
  pass, does not change.
\<close>

fun sync_pages ::
  "'w env \<Rightarrow> string \<Rightarrow> connector_config \<Rightarrow> datetime \<Rightarrow> nat \<Rightarrow> string option \<Rightarrow> datetime
   \<Rightarrow> 'w state \<Rightarrow> exn option \<times> datetime \<times> 'w state" where
  "sync_pages env oauth_token config last_update_time 0 next_token new_last_update_time s =
     (None, new_last_update_time,
      log_event (Ev_warning ''Did not complete a sync in 1000 passes'') s)"
| "sync_pages env oauth_token config last_update_time (Suc n) next_token
     new_last_update_time s =
     (case get_ids_to_update env oauth_token (panopto_site_address config) last_update_time
             next_token s of
        (Inl ex, s1) \<Rightarrow> (Some ex, new_last_update_time, s1)
      | (Inr get_ids_response, s1) \<Rightarrow>
          (case sync_updates env oauth_token config (Updates get_ids_response)
                  new_last_update_time s1 of
             (Some ex, t, s2) \<Rightarrow> (Some ex, t, s2)
           | (None, t, s2) \<Rightarrow>
               (case NextToken get_ids_response of
                  None \<Rightarrow> (None, t, s2)
                | Some tok \<Rightarrow>
                    sync_pages env oauth_token config last_update_time n (Some tok) t s2)))"

text \<open>
  \<open>sync\<close>. The handler and the token are obtained before the \<open>try\<close>: an exception there
  leaves \<open>sync\<close> (\<open>Inl\<close>). Inside the \<open>try\<close> every exception is caught and returned
  beside the candidate watermark; an \<open>HTTPError\<close> is logged as well.
\<close>

definition sync ::
  "'w env \<Rightarrow> connector_config \<Rightarrow> datetime \<Rightarrow> 'w state
   \<Rightarrow> (exn + datetime \<times> exn option) \<times> 'w state" where
  "sync env config last_update_time s =
     (case call (new_target_handler env config) s of
        (Inl ex, s1) \<Rightarrow> (Inl ex, s1)
      | (Inr _, s1) \<Rightarrow>
     (case get_oauth_token env (panopto_site_address config)
             (panopto_oauth_credentials config) s1 of
        (Inl ex, s2) \<Rightarrow> (Inl ex, s2)
      | (Inr oauth_token, s2) \<Rightarrow>
     (case utcnow env s2 of (start_time, s3) \<Rightarrow>
     (case sync_pages env oauth_token config last_update_time 1000 None last_update_time s3 of
        (exception, new_last_update_time, s4) \<Rightarrow>
          (case exception of
             None \<Rightarrow> (Inr (start_time, None), s4)
           | Some (HTTPError status body) \<Rightarrow>
               (Inr (new_last_update_time, exception),
                log_event (Ev_exception ''Received error response %s | %s'' (HTTPError status body)) s4)
           | Some _ \<Rightarrow> (Inr (new_last_update_time, exception), s4))))))"

definition wait :: "'w env \<Rightarrow> timedelta \<Rightarrow> 'w state \<Rightarrow> 'w state" where
  "wait env remaining_time s =
     (if remaining_time \<le> 0
      then log_event (Ev_warning ''Received a negative wait time. Continuing now'') s
      else sleep env remaining_time s)"

definition persist :: "'w env \<Rightarrow> connector_config \<Rightarrow> datetime \<Rightarrow> 'w state \<Rightarrow> 'w state" where
  "persist env config last_update_time s =
     log_event (Ev_save last_update_time)
       (s\<lparr>files := save_last_update_time last_update_time (home_dir env)
                     (target_implementation config) (files s)\<rparr>)"

text \<open>
  One turn of the \<open>while True\<close> loop of \<open>run\<close>. After a pass without failure the
  time to wait is \<open>start_time + config.polling_frequency - datetime.utcnow()\<close>: the sum
  is computed first and may raise \<open>OverflowError\<close>, which nothing catches.
\<close>

definition run_pass ::
  "'w env \<Rightarrow> connector_config \<Rightarrow> datetime \<Rightarrow> 'w state \<Rightarrow> (exn + datetime) \<times> 'w state" where
  "run_pass env config last_update_time s =
     (case utcnow env s of (start_time, s1) \<Rightarrow>
     (case sync env config last_update_time s1 of
        (Inl ex, s2) \<Rightarrow> (Inl ex, s2)
      | (Inr (new_time, Some ex), s2) \<Rightarrow>
          (let s3 = log_event
                      (Ev_exception ''Failed to sync the search index: current up to %s | %s'' ex) s2
           in (Inr new_time,
               wait env (polling_retry_minimum config) (persist env config new_time s3)))
      | (Inr (new_time, None), s2) \<Rightarrow>
          (case datetime_add start_time (polling_frequency config) of
             Inl ex \<Rightarrow> (Inl ex, s2)
           | Inr due \<Rightarrow>
               (case utcnow env s2 of (now, s3) \<Rightarrow>
                  (Inr new_time,
                   wait env (due - to_us now) (persist env config new_time s3))))))"

text \<open>
  \<open>run\<close> never returns: \<open>run_loop n\<close> is its first \<open>n\<close> turns, and \<open>Inl\<close> an exception
  that left the loop and ended the process.
\<close>

fun run_loop ::
  "'w env \<Rightarrow> connector_config \<Rightarrow> nat \<Rightarrow> datetime \<Rightarrow> 'w state \<Rightarrow> (exn + datetime) \<times> 'w state" where
  "run_loop env config 0 last_update_time s = (Inr last_update_time, s)"
| "run_loop env config (Suc n) last_update_time s =
     (case run_pass env config last_update_time s of
        (Inl ex, s1) \<Rightarrow> (Inl ex, s1)
      | (Inr new_time, s1) \<Rightarrow> run_loop env config n new_time s1)"

definition run :: "'w env \<Rightarrow> connector_config \<Rightarrow> nat \<Rightarrow> 'w state \<Rightarrow> (exn + datetime) \<times> 'w state" where
  "run env config n s =
     (case get_last_update_time (home_dir env) (target_implementation config) (files s) of
        Inl ex \<Rightarrow> (Inl ex, s)
      | Inr last_update_time \<Rightarrow> run_loop env config n last_update_time s)"

section \<open>Reading a trace\<close>

text \<open>
  What a stretch of the trace says: the updates the source listed, in order; the
  number of calls of \<open>get_ids_to_update\<close>; the calls of \<open>sync_video_by_id\<close> with their
  outcomes, in order; the readings of the clock; the watermarks saved; the warnings.
  \<open>new_events s s'\<close> is what a computation from \<open>s\<close> to \<open>s'\<close> added to the trace.
\<close>

definition new_events :: "'w state \<Rightarrow> 'w state \<Rightarrow> event list" where
  "new_events s s' = drop (length (trace s)) (trace s')"

fun updates_of :: "event \<Rightarrow> update list" where
  "updates_of (Ev_get_ids_to_update _ _ (Inr r)) = Updates r"
| "updates_of _ = []"

definition enumerated :: "event list \<Rightarrow> update list" where
  "enumerated evs = concat (map updates_of evs)"

fun is_enumeration :: "event \<Rightarrow> bool" where
  "is_enumeration (Ev_get_ids_to_update _ _ _) = True"
| "is_enumeration _ = False"

definition enum_calls :: "event list \<Rightarrow> nat" where
  "enum_calls evs = length (filter is_enumeration evs)"

fun item_of :: "event \<Rightarrow> (string \<times> exn option) list" where
  "item_of (Ev_sync_video_by_id v r) = [(v, r)]"
| "item_of _ = []"

definition item_events :: "event list \<Rightarrow> (string \<times> exn option) list" where
  "item_events evs = concat (map item_of evs)"

definition applied_count :: "event list \<Rightarrow> nat" where
  "applied_count evs = length (filter (\<lambda>p. snd p = None) (item_events evs))"

fun reading_of :: "event \<Rightarrow> datetime list" where
  "reading_of (Ev_utcnow t) = [t]"
| "reading_of _ = []"

definition readings :: "event list \<Rightarrow> datetime list" where
  "readings evs = concat (map reading_of evs)"

fun saved_of :: "event \<Rightarrow> datetime list" where
  "saved_of (Ev_save t) = [t]"
| "saved_of _ = []"

definition saved :: "event list \<Rightarrow> datetime list" where
  "saved evs = concat (map saved_of evs)"

fun warning_of :: "event \<Rightarrow> string list" where
  "warning_of (Ev_warning m) = [m]"
| "warning_of _ = []"

definition warnings :: "event list \<Rightarrow> string list" where
  "warnings evs = concat (map warning_of evs)"

text \<open>The change timestamp of an update as \<open>sync\<close> reads it.\<close>

definition update_time_of :: "update \<Rightarrow> exn + datetime" where
  "update_time_of u = strptime_iso (split_dot_0 (UpdateTime u))"

section \<open>An outside world for the examples\<close>

text \<open>
  A world whose state counts the requests made to the change list so far. The token
  request answers \<open>token\<close>; the \<open>k\<close>-th request to the change list answers \<open>pages k\<close>;
  fetching the content of a video fails with status 500 for the identifiers in \<open>bad\<close>;
  the clock reads \<open>clock k\<close> after \<open>k\<close> requests to the change list; the target accepts
  everything.
\<close>

definition ex_env ::
  "exn + string \<Rightarrow> (nat \<Rightarrow> exn + updates_response) \<Rightarrow> string list \<Rightarrow> (nat \<Rightarrow> datetime)
   \<Rightarrow> nat env" where
  "ex_env token pages bad clock =
     \<lparr>home_dir = ''/home/u'',
      clock_utcnow = (\<lambda>k. (clock k, k)),
      time_sleep = (\<lambda>delta k. k),
      post_token = (\<lambda>url data k. (token, k)),
      get_updates = (\<lambda>url tok from_date next_token k. (pages k, Suc k)),
      get_content = (\<lambda>url tok video_id k.
        (if video_id \<in> set bad then Inl (HTTPError 500 ''Internal Server Error'')
         else Inr \<lparr>vc_Id = video_id, vc_Deleted = False, vc_fields = ''{}''\<rparr>, k)),
      new_target_handler = (\<lambda>config k. (Inr (), k)),
      delete_from_target = (\<lambda>target_id k. (Inr (), k)),
      convert_to_target = (\<lambda>content k. (Inr (vc_fields content), k)),
      push_to_target = (\<lambda>target_content config k. (Inr (), k))\<rparr>"

definition ex_config :: connector_config where
  "ex_config =
     \<lparr>panopto_site_address = ''https://site'',
      panopto_oauth_credentials =
        \<lparr>client_id = ''id'', client_secret = ''secret'', grant_type = ''client_credentials'',
         username = None, password = None\<rparr>,
      target_implementation = ''t'',
      polling_frequency = 3600000000,
      polling_retry_minimum = 600000000\<rparr>"

definition ex_state :: "nat state" where
  "ex_state = \<lparr>world = 0, files = Map.empty, trace = []\<rparr>"

definition at_time :: "nat \<Rightarrow> nat \<Rightarrow> nat \<Rightarrow> nat \<Rightarrow> datetime" where
  "at_time hh mm ss us =
     \<lparr>year = 2020, month = 1, day = 1, hour = hh, minute = mm, second = ss, microsecond = us\<rparr>"

text \<open>The worlds of the examples. All of them read the clock as 12:00:00.25.\<close>

definition two_updates :: "update list" where
  "two_updates =
     [\<lparr>VideoId = ''a'', UpdateTime = ''2020-01-01T10:00:00.1230000''\<rparr>,
      \<lparr>VideoId = ''b'', UpdateTime = ''2020-01-01T10:00:05.9990000''\<rparr>]"

definition world_empty_page :: "nat env" where
  "world_empty_page =
     ex_env (Inr ''token'') (\<lambda>k. Inr \<lparr>Updates = [], NextToken = None\<rparr>) []
       (\<lambda>k. at_time 12 0 0 250000)"

definition world_two_updates :: "nat env" where
  "world_two_updates =
     ex_env (Inr ''token'') (\<lambda>k. Inr \<lparr>Updates = two_updates, NextToken = None\<rparr>) []
       (\<lambda>k. at_time 12 0 0 250000)"

definition world_b_fails :: "nat env" where
  "world_b_fails =
     ex_env (Inr ''token'') (\<lambda>k. Inr \<lparr>Updates = two_updates, NextToken = None\<rparr>) [''b'']
       (\<lambda>k. at_time 12 0 0 250000)"

definition world_a_fails :: "nat env" where
  "world_a_fails =
     ex_env (Inr ''token'') (\<lambda>k. Inr \<lparr>Updates = two_updates, NextToken = None\<rparr>) [''a'']
       (\<lambda>k. at_time 12 0 0 250000)"


definition world_token_rejected :: "nat env" where
  "world_token_rejected =
     ex_env (Inl (HTTPError 401 ''Unauthorized''))
       (\<lambda>k. Inr \<lparr>Updates = [], NextToken = None\<rparr>) [] (\<lambda>k. at_time 12 0 0 250000)"

definition world_endless_pages :: "nat env" where
  "world_endless_pages =
     ex_env (Inr ''token'')
       (\<lambda>k. Inr \<lparr>Updates = [\<lparr>VideoId = ''a'', UpdateTime = ''2020-01-01T10:00:00''\<rparr>],
                  NextToken = Some ''more''\<rparr>)
       [] (\<lambda>k. at_time 12 0 0 250000)"


section \<open>Timely observations\<close>


section \<open>Properties of the timestamp formats\<close>

lemma digit_cases:
  fixes m :: nat
  assumes "m < 10"
  shows "m = 0 \<or> m = 1 \<or> m = 2 \<or> m = 3 \<or> m = 4 \<or> m = 5 \<or> m = 6 \<or> m = 7 \<or> m = 8 \<or> m = 9"
  using assms by arith

lemma digit_val_digit_char: "digit_val (digit_char n) = Some (n mod 10)"
proof -
  have "n mod 10 < 10" by simp
  from digit_cases [OF this] show ?thesis
    by (elim disjE) (simp_all add: digit_char_def digit_val_def)
qed

lemma length_fmt_0d: "length (fmt_0d w k) = w"
  by (induction w arbitrary: k) simp_all

lemma digits_acc_append:
  "digits_acc acc (xs @ ys) = (case digits_acc acc xs of None \<Rightarrow> None | Some a \<Rightarrow> digits_acc a ys)"
  by (induction xs arbitrary: acc) (simp_all split: option.splits)

lemma digits_acc_fmt_0d: "digits_acc acc (fmt_0d w k) = Some (acc * 10 ^ w + k mod 10 ^ w)"
proof (induction w arbitrary: k)
  case 0
  show ?case by simp
next
  case (Suc w)
  have "k mod (10 * 10 ^ w) = 10 * (k div 10 mod 10 ^ w) + k mod 10"
    by (simp add: mod_mult2_eq)
  then show ?case
    by (simp add: digits_acc_append Suc digit_val_digit_char algebra_simps)
qed

lemma parse_digits_fmt_0d: "k < 10 ^ w \<Longrightarrow> parse_digits (fmt_0d w k) = Some k"
  by (simp add: parse_digits_def digits_acc_fmt_0d)

lemma is_digit_digit_char: "is_digit (digit_char n)"
  by (simp add: is_digit_def digit_val_digit_char)

lemma fmt_0d_digits: "c \<in> set (fmt_0d w k) \<Longrightarrow> is_digit c"
  by (induction w arbitrary: k) (auto simp: is_digit_digit_char)


lemma valid_days_le_31: "valid_datetime d \<Longrightarrow> day d \<le> 31"
  by (auto simp: valid_datetime_def days_in_month_def split: if_splits)

lemma valid_datetime_fields:
  assumes "valid_datetime d"
  shows "parse_digits (fmt_0d 4 (year d)) = Some (year d)"
    and "parse_digits (fmt_0d 2 (month d)) = Some (month d)"
    and "parse_digits (fmt_0d 2 (day d)) = Some (day d)"
    and "parse_digits (fmt_0d 2 (hour d)) = Some (hour d)"
    and "parse_digits (fmt_0d 2 (minute d)) = Some (minute d)"
    and "parse_digits (fmt_0d 2 (second d)) = Some (second d)"
    and "parse_digits (fmt_0d 6 (microsecond d)) = Some (microsecond d)"
  using assms valid_days_le_31 [OF assms]
  by (simp_all add: parse_digits_fmt_0d valid_datetime_def)

lemma datetime_new_fields:
  "valid_datetime d \<Longrightarrow>
   datetime_new (year d) (month d) (day d) (hour d) (minute d) (second d) (microsecond d) = Inr d"
  by (cases d) (simp add: datetime_new_def)

lemma fromisoformat_fields_isoformat:
  assumes "valid_datetime d"
  shows "fromisoformat_fields (isoformat d) =
         Some (year d, month d, day d, hour d, minute d, second d, microsecond d)"
proof (cases "microsecond d = 0")
  case True
  then show ?thesis
    using valid_datetime_fields [OF assms]
    by (simp add: fromisoformat_fields_def isoformat_def sep_at_def field_at_def length_fmt_0d
        nth_append)
next
  case False
  then show ?thesis
    using valid_datetime_fields [OF assms]
    by (simp add: fromisoformat_fields_def isoformat_def sep_at_def field_at_def length_fmt_0d
        nth_append)
qed

lemma fromisoformat_isoformat:
  "valid_datetime d \<Longrightarrow> fromisoformat (isoformat d) = Inr d"
  by (simp add: fromisoformat_def fromisoformat_fields_isoformat datetime_new_fields)



subsection \<open>strip and lines\<close>

lemma digit_not_space: "is_digit c \<Longrightarrow> \<not> py_isspace c"
  by (auto simp: is_digit_def digit_val_def py_isspace_def Let_def split: if_splits)

lemma digit_not_newline: "is_digit c \<Longrightarrow> c \<noteq> CHR 0x0A \<and> c \<noteq> CHR 0x0D"
  by (auto simp: is_digit_def digit_val_def Let_def split: if_splits)

lemma isspace_LF: "py_isspace (CHR 0x0A)"
  by (simp add: py_isspace_def)

lemma fmt_0d_ends:
  "0 < w \<Longrightarrow> fmt_0d w k \<noteq> [] \<and> is_digit (hd (fmt_0d w k)) \<and> is_digit (last (fmt_0d w k))"
proof -
  assume "0 < w"
  then have ne: "fmt_0d w k \<noteq> []"
    using length_fmt_0d [of w k] by auto
  then show ?thesis
    using fmt_0d_digits [of "hd (fmt_0d w k)" w k] fmt_0d_digits [of "last (fmt_0d w k)" w k]
    by simp
qed

lemma isoformat_chars:
  "c \<in> set (isoformat d) \<Longrightarrow>
   is_digit c \<or> c = CHR ''-'' \<or> c = CHR ''T'' \<or> c = CHR '':'' \<or> c = CHR ''.''"
  by (auto simp: isoformat_def dest: fmt_0d_digits split: if_splits)

lemma isoformat_no_newline: "CHR 0x0A \<notin> set (isoformat d)" "CHR 0x0D \<notin> set (isoformat d)"
  using isoformat_chars [of "CHR 0x0A" d] isoformat_chars [of "CHR 0x0D" d]
  by (auto dest: digit_not_newline)

lemma isoformat_ends:
  "isoformat d \<noteq> []" "is_digit (hd (isoformat d))" "is_digit (last (isoformat d))"
  using fmt_0d_ends [of 4 "year d"] fmt_0d_ends [of 2 "second d"] fmt_0d_ends [of 6 "microsecond d"]
  by (simp_all add: isoformat_def)

lemma strip_line:
  assumes "s \<noteq> []" "\<not> py_isspace (hd s)" "\<not> py_isspace (last s)"
  shows "strip (s @ [CHR 0x0A]) = s"
proof -
  from assms obtain x xs where s: "s = x # xs" by (cases s) auto
  with assms have 1: "dropWhile py_isspace (s @ [CHR 0x0A]) = s @ [CHR 0x0A]" by simp
  have dw: "ys \<noteq> [] \<Longrightarrow> \<not> py_isspace (hd ys) \<Longrightarrow> dropWhile py_isspace ys = ys" for ys
    by (cases ys) auto
  from assms have "rev s \<noteq> []" "hd (rev s) = last s" by (simp_all add: hd_rev)
  then have 2: "dropWhile py_isspace (rev s) = rev s"
    using assms(3) dw [of "rev s"] by simp
  show ?thesis
    by (simp add: strip_def 1 isspace_LF 2)
qed

lemma strip_isoformat_line: "strip (isoformat d @ [CHR 0x0A]) = isoformat d"
  by (rule strip_line) (simp_all add: isoformat_ends digit_not_space)

lemma universal_newlines_id: "CHR 0x0D \<notin> set s \<Longrightarrow> universal_newlines s = s"
  by (induction s rule: universal_newlines.induct) auto

lemma universal_newlines_append:
  "ys = [] \<or> hd ys \<noteq> CHR 0x0A \<Longrightarrow>
   universal_newlines (xs @ ys) = universal_newlines xs @ universal_newlines ys"
proof (induction xs rule: universal_newlines.induct)
  case 1
  show ?case by simp
next
  case (2 c)
  then show ?case by (cases ys) auto
next
  case (3 c d cs)
  then show ?case by auto
qed

lemma universal_newlines_Nil: "universal_newlines s = [] \<longleftrightarrow> s = []"
  by (induction s rule: universal_newlines.induct) auto

lemma universal_newlines_last:
  "s \<noteq> [] \<Longrightarrow> last s = CHR 0x0A \<or> last s = CHR 0x0D \<Longrightarrow>
   last (universal_newlines s) = CHR 0x0A"
  by (induction s rule: universal_newlines.induct)
     (auto simp: universal_newlines_Nil split: if_splits)


lemma lines_from_append:
  "xs \<noteq> [] \<Longrightarrow> last xs = CHR 0x0A \<Longrightarrow>
   lines_from cur (xs @ ys) = lines_from cur xs @ lines_from [] ys"
  by (induction xs arbitrary: cur) (auto split: if_splits)

lemma lines_from_single:
  "CHR 0x0A \<notin> set s \<Longrightarrow> lines_from cur (s @ [CHR 0x0A]) = [cur @ s @ [CHR 0x0A]]"
  by (induction s arbitrary: cur) auto


lemma readlines_append_line:
  assumes "content = [] \<or> last content = CHR 0x0A \<or> last content = CHR 0x0D"
  shows "readlines (content @ isoformat d @ [CHR 0x0A]) =
         readlines content @ [isoformat d @ [CHR 0x0A]]"
proof -
  let ?l = "isoformat d @ [CHR 0x0A]"
  have hd: "hd ?l \<noteq> CHR 0x0A"
    using isoformat_ends [of d] digit_not_newline [of "hd (isoformat d)"] by simp
  have un: "universal_newlines (content @ ?l) = universal_newlines content @ ?l"
    using hd isoformat_no_newline [of d]
    by (simp add: universal_newlines_append universal_newlines_id)
  have one: "lines_from [] ?l = [?l]"
    using lines_from_single [of "isoformat d" "[]"] isoformat_no_newline [of d] by simp
  show ?thesis
  proof (cases "content = []")
    case True
    then show ?thesis using un one by (simp add: readlines_def)
  next
    case False
    with assms have "universal_newlines content \<noteq> []"
      "last (universal_newlines content) = CHR 0x0A"
      by (simp_all add: universal_newlines_Nil universal_newlines_last)
    then show ?thesis
      using un one by (simp add: readlines_def lines_from_append)
  qed
qed

lemma ex_file: "tracking_file ''/home/u'' ''t'' = ''/home/u/.panopto-connector.t''"
  by (simp add: tracking_file_def path_join_def)

section \<open>Properties of a pass\<close>

subsection \<open>Traces\<close>

lemma log_event_simps [simp]:
  "trace (log_event ev s) = trace s @ [ev]"
  "world (log_event ev s) = world s"
  "files (log_event ev s) = files s"
  by (simp_all add: log_event_def)

lemma call_snd [simp]:
  "trace (snd (call f s)) = trace s"
  "files (snd (call f s)) = files s"
  by (simp_all add: call_def split: prod.splits)

lemma call_unchanged: "call f s = (r, s') \<Longrightarrow> trace s' = trace s \<and> files s' = files s"
  using call_snd [of f s] by simp

lemma utcnow_trace:
  "utcnow env s = (t, s') \<Longrightarrow> trace s' = trace s @ [Ev_utcnow t] \<and> files s' = files s"
  by (auto simp: utcnow_def split: prod.splits dest: call_unchanged)

lemma sleep_simps [simp]:
  "trace (sleep env d s) = trace s @ [Ev_sleep d]"
  "files (sleep env d s) = files s"
  by (simp_all add: sleep_def)

lemma get_oauth_token_unchanged:
  "get_oauth_token env site creds s = (r, s') \<Longrightarrow> trace s' = trace s \<and> files s' = files s"
  by (auto simp: get_oauth_token_def Let_def dest: call_unchanged)

lemma get_ids_to_update_trace:
  "get_ids_to_update env tok site from_date nt s = (r, s') \<Longrightarrow>
   trace s' = trace s @ [Ev_get_ids_to_update from_date nt r] \<and> files s' = files s"
  by (auto simp: get_ids_to_update_def Let_def split: prod.splits dest: call_unchanged)

lemma sync_video_by_id_snd:
  "trace (snd (sync_video_by_id env tok config v s)) = trace s"
  "files (snd (sync_video_by_id env tok config v s)) = files s"
proof -
  obtain r1 s1 where g: "call (get_content env
      (panopto_site_address config @ ''/Panopto/api/v1/searchIndexSync/content?'') tok v) s
      = (r1, s1)"
    by (cases "call (get_content env
      (panopto_site_address config @ ''/Panopto/api/v1/searchIndexSync/content?'') tok v) s")
  note u1 = call_unchanged [OF g]
  show "trace (snd (sync_video_by_id env tok config v s)) = trace s"
    using g u1
    by (cases r1) (simp_all add: sync_video_by_id_def get_video_content_def
        split: prod.splits sum.splits,
        metis call_snd(1) snd_conv)
  show "files (snd (sync_video_by_id env tok config v s)) = files s"
    using g u1
    by (cases r1) (simp_all add: sync_video_by_id_def get_video_content_def
        split: prod.splits sum.splits,
        metis call_snd(2) snd_conv)
qed

lemma sync_video_by_id_unchanged:
  "sync_video_by_id env tok config v s = (r, s') \<Longrightarrow> trace s' = trace s \<and> files s' = files s"
  using sync_video_by_id_snd [of env tok config v s] by simp

lemma new_events_append: "trace s' = trace s @ evs \<Longrightarrow> new_events s s' = evs"
  by (simp add: new_events_def)

lemma enumerated_simps [simp]:
  "enumerated [] = []"
  "enumerated (ev # evs) = updates_of ev @ enumerated evs"
  "enumerated (xs @ ys) = enumerated xs @ enumerated ys"
  by (simp_all add: enumerated_def)

lemma item_events_simps [simp]:
  "item_events [] = []"
  "item_events (ev # evs) = item_of ev @ item_events evs"
  "item_events (xs @ ys) = item_events xs @ item_events ys"
  by (simp_all add: item_events_def)

lemma enum_calls_simps [simp]:
  "enum_calls [] = 0"
  "enum_calls (ev # evs) = (if is_enumeration ev then 1 else 0) + enum_calls evs"
  "enum_calls (xs @ ys) = enum_calls xs + enum_calls ys"
  by (simp_all add: enum_calls_def)

lemma readings_simps [simp]:
  "readings [] = []"
  "readings (ev # evs) = reading_of ev @ readings evs"
  "readings (xs @ ys) = readings xs @ readings ys"
  by (simp_all add: readings_def)

lemma saved_simps [simp]:
  "saved [] = []"
  "saved (ev # evs) = saved_of ev @ saved evs"
  "saved (xs @ ys) = saved xs @ saved ys"
  by (simp_all add: saved_def)

lemma warnings_simps [simp]:
  "warnings [] = []"
  "warnings (ev # evs) = warning_of ev @ warnings evs"
  "warnings (xs @ ys) = warnings xs @ warnings ys"
  by (simp_all add: warnings_def)

subsection \<open>The loop over the updates of one page\<close>

lemma sync_updates_progress:
  "sync_updates env tok config us nl s = (exc, nl', s') \<Longrightarrow>
   \<exists>evs K F. trace s' = trace s @ evs \<and> files s' = files s \<and>
     enumerated evs = [] \<and> enum_calls evs = 0 \<and> readings evs = [] \<and> saved evs = [] \<and>
     warnings evs = [] \<and>
     item_events evs = map (\<lambda>u. (VideoId u, None)) (take K us) @ F \<and>
     (K = 0 \<and> nl' = nl \<or> 0 < K \<and> update_time_of (us ! (K - 1)) = Inr nl') \<and>
     (case exc of
        None \<Rightarrow> K = length us \<and> F = []
      | Some e \<Rightarrow> K < length us \<and> (F = [] \<or> F = [(VideoId (us ! K), Some e)]))"
proof (induction us arbitrary: nl s)
  case Nil
  then show ?case by auto
next
  case (Cons u us)
  show ?case
  proof (cases "update_time_of u")
    case (Inl ex)
    with Cons.prems have "exc = Some ex" "nl' = nl" "s' = s"
      by (simp_all add: update_time_of_def)
    then show ?thesis
      by (intro exI [of _ "[]"] exI [of _ 0]) simp
  next
    case (Inr t)
    obtain r s1 where sv: "sync_video_by_id env tok config (VideoId u) s = (r, s1)"
      by (cases "sync_video_by_id env tok config (VideoId u) s")
    note un = sync_video_by_id_unchanged [OF sv]
    show ?thesis
    proof (cases r)
      case (Inl ex)
      with Cons.prems Inr sv have res: "exc = Some ex" "nl' = nl"
        "s' = log_event (Ev_sync_video_by_id (VideoId u) (Some ex)) s1"
        by (auto simp: update_time_of_def)
      show ?thesis
        apply (rule exI [of _ "[Ev_sync_video_by_id (VideoId u) (Some ex)]"])
        apply (rule exI [of _ 0])
        apply (rule exI [of _ "[(VideoId u, Some ex)]"])
        using res(1,2) un by (simp_all add: res(3))
    next
      case (Inr x)
      let ?s2 = "sleep env 2000000 (log_event (Ev_sync_video_by_id (VideoId u) None) s1)"
      from Cons.prems \<open>update_time_of u = Inr t\<close> sv Inr
      have rec: "sync_updates env tok config us t ?s2 = (exc, nl', s')"
        by (simp add: update_time_of_def)
      from Cons.IH [OF rec] obtain evs K F where
        tr: "trace s' = trace ?s2 @ evs" and fl: "files s' = files ?s2" and
        q: "enumerated evs = []" "enum_calls evs = 0" "readings evs = []" "saved evs = []"
           "warnings evs = []" and
        it: "item_events evs = map (\<lambda>u. (VideoId u, None)) (take K us) @ F" and
        wm: "K = 0 \<and> nl' = t \<or> 0 < K \<and> update_time_of (us ! (K - 1)) = Inr nl'" and
        ex: "case exc of None \<Rightarrow> K = length us \<and> F = []
             | Some e \<Rightarrow> K < length us \<and> (F = [] \<or> F = [(VideoId (us ! K), Some e)])"
        by blast
      have wm': "update_time_of ((u # us) ! (Suc K - 1)) = Inr nl'"
        using wm \<open>update_time_of u = Inr t\<close> by (cases K) auto
      show ?thesis
        apply (rule exI [of _ "[Ev_sync_video_by_id (VideoId u) None, Ev_sleep 2000000] @ evs"])
        apply (rule exI [of _ "Suc K"])
        apply (rule exI [of _ F])
        using tr fl q it wm' ex un by (auto split: option.splits)
    qed
  qed
qed


subsection \<open>The loop over the pages\<close>

lemma sync_pages_progress:
  "sync_pages env tok config w0 n nt nl s = (exc, nl', s') \<Longrightarrow>
   \<exists>evs K F. trace s' = trace s @ evs \<and> files s' = files s \<and>
     readings evs = [] \<and> saved evs = [] \<and> enum_calls evs \<le> n \<and>
     item_events evs = map (\<lambda>u. (VideoId u, None)) (take K (enumerated evs)) @ F \<and>
     K \<le> length (enumerated evs) \<and>
     (K = 0 \<and> nl' = nl \<or> 0 < K \<and> update_time_of (enumerated evs ! (K - 1)) = Inr nl') \<and>
     (case exc of
        None \<Rightarrow> K = length (enumerated evs) \<and> F = []
      | Some e \<Rightarrow> F = [] \<or>
          (K < length (enumerated evs) \<and> F = [(VideoId (enumerated evs ! K), Some e)]))"
proof (induction n arbitrary: nt nl s)
  case 0
  then have "exc = None" "nl' = nl"
    "s' = log_event (Ev_warning ''Did not complete a sync in 1000 passes'') s"
    by auto
  then show ?case
    by (intro exI [of _ "[Ev_warning ''Did not complete a sync in 1000 passes'']"]
        exI [of _ 0] exI [of _ "[]"]) simp
next
  case (Suc n)
  obtain r s1 where g:
    "get_ids_to_update env tok (panopto_site_address config) w0 nt s = (r, s1)"
    by (cases "get_ids_to_update env tok (panopto_site_address config) w0 nt s")
  note gt = get_ids_to_update_trace [OF g]
  show ?case
  proof (cases r)
    case (Inl ex)
    with Suc.prems g have "exc = Some ex" "nl' = nl" "s' = s1" by auto
    then show ?thesis
      using gt Inl
      by (intro exI [of _ "[Ev_get_ids_to_update w0 nt (Inl ex)]"]
          exI [of _ 0] exI [of _ "[]"]) simp
  next
    case (Inr resp)
    let ?us = "Updates resp"
    let ?ev = "Ev_get_ids_to_update w0 nt (Inr resp)"
    obtain exc1 nl1 s2 where su: "sync_updates env tok config ?us nl s1 = (exc1, nl1, s2)"
      by (cases "sync_updates env tok config ?us nl s1")
    from sync_updates_progress [OF su] obtain evs1 K1 F1 where
      tr1: "trace s2 = trace s1 @ evs1" and fl1: "files s2 = files s1" and
      q1: "enumerated evs1 = []" "enum_calls evs1 = 0" "readings evs1 = []" "saved evs1 = []" and
      it1: "item_events evs1 = map (\<lambda>u. (VideoId u, None)) (take K1 ?us) @ F1" and
      wm1: "K1 = 0 \<and> nl1 = nl \<or> 0 < K1 \<and> update_time_of (?us ! (K1 - 1)) = Inr nl1" and
      ex1: "case exc1 of None \<Rightarrow> K1 = length ?us \<and> F1 = []
            | Some e \<Rightarrow> K1 < length ?us \<and> (F1 = [] \<or> F1 = [(VideoId (?us ! K1), Some e)])"
      by blast
    show ?thesis
    proof (cases exc1)
      case (Some e)
      with Suc.prems g Inr su have res: "exc = Some e" "nl' = nl1" "s' = s2" by auto
      show ?thesis
        apply (rule exI [of _ "?ev # evs1"])
        apply (rule exI [of _ K1])
        apply (rule exI [of _ F1])
        using res gt Inr tr1 fl1 q1 it1 wm1 ex1 Some by auto
    next
      case None
      with ex1 have full: "K1 = length ?us" "F1 = []" by auto
      show ?thesis
      proof (cases "NextToken resp")
        case None
        with Suc.prems g Inr su \<open>exc1 = None\<close> have res: "exc = None" "nl' = nl1" "s' = s2"
          by auto
        show ?thesis
          apply (rule exI [of _ "?ev # evs1"])
          apply (rule exI [of _ K1])
          apply (rule exI [of _ F1])
          using res gt Inr tr1 fl1 q1 it1 wm1 full by auto
      next
        case (Some t)
        with Suc.prems g Inr su \<open>exc1 = None\<close>
        have rec: "sync_pages env tok config w0 n (Some t) nl1 s2 = (exc, nl', s')"
          by auto
        from Suc.IH [OF rec] obtain evs2 K2 F2 where
          tr2: "trace s' = trace s2 @ evs2" and fl2: "files s' = files s2" and
          q2: "readings evs2 = []" "saved evs2 = []" "enum_calls evs2 \<le> n" and
          it2: "item_events evs2 =
                map (\<lambda>u. (VideoId u, None)) (take K2 (enumerated evs2)) @ F2" and
          le2: "K2 \<le> length (enumerated evs2)" and
          wm2: "K2 = 0 \<and> nl' = nl1 \<or>
                0 < K2 \<and> update_time_of (enumerated evs2 ! (K2 - 1)) = Inr nl'" and
          ex2: "case exc of None \<Rightarrow> K2 = length (enumerated evs2) \<and> F2 = []
                | Some e \<Rightarrow> F2 = [] \<or> (K2 < length (enumerated evs2) \<and>
                    F2 = [(VideoId (enumerated evs2 ! K2), Some e)])"
          by blast
        let ?evs = "?ev # evs1 @ evs2"
        let ?K = "length ?us + K2"
        have en: "enumerated ?evs = ?us @ enumerated evs2"
          using q1 by simp
        have a: "trace s' = trace s @ ?evs" "files s' = files s"
          using gt Inr tr1 tr2 fl1 fl2 by simp_all
        have b: "readings ?evs = []" "saved ?evs = []" "enum_calls ?evs \<le> Suc n"
          using q1 q2 by simp_all
        have c: "item_events ?evs =
                 map (\<lambda>u. (VideoId u, None)) (take ?K (enumerated ?evs)) @ F2"
          using it1 it2 full q1 by simp
        have d: "?K \<le> length (enumerated ?evs)"
          using le2 q1 by simp
        have e: "?K = 0 \<and> nl' = nl \<or>
                 0 < ?K \<and> update_time_of (enumerated ?evs ! (?K - 1)) = Inr nl'"
        proof (cases "K2 = 0")
          case True
          with wm2 have "nl' = nl1" by simp
          with wm1 full True show ?thesis
            unfolding en by (auto simp: nth_append)
        next
          case False
          with wm2 have "update_time_of (enumerated evs2 ! (K2 - 1)) = Inr nl'" by simp
          moreover have "enumerated ?evs ! (?K - 1) = enumerated evs2 ! (K2 - 1)"
            using False unfolding en by (simp add: nth_append)
          ultimately show ?thesis using False by simp
        qed
        have f: "case exc of None \<Rightarrow> ?K = length (enumerated ?evs) \<and> F2 = []
                 | Some e \<Rightarrow> F2 = [] \<or> (?K < length (enumerated ?evs) \<and>
                     F2 = [(VideoId (enumerated ?evs ! ?K), Some e)])"
          using ex2 unfolding en by (auto simp: nth_append split: option.splits)
        show ?thesis
          apply (rule exI [of _ ?evs])
          apply (rule exI [of _ ?K])
          apply (rule exI [of _ F2])
          using a b c d e f by blast
      qed
    qed
  qed
qed


subsection \<open>One pass\<close>

lemma sync_raises:
  assumes "sync env config w s = (Inl ex, s')"
  shows "trace s' = trace s \<and> files s' = files s"
proof -
  obtain r1 s1 where h: "call (new_target_handler env config) s = (r1, s1)"
    by (cases "call (new_target_handler env config) s")
  obtain r2 s2 where t: "get_oauth_token env (panopto_site_address config)
      (panopto_oauth_credentials config) s1 = (r2, s2)"
    by (cases "get_oauth_token env (panopto_site_address config)
      (panopto_oauth_credentials config) s1")
  note u1 = call_unchanged [OF h] and u2 = get_oauth_token_unchanged [OF t]
  show ?thesis
  proof (cases r1)
    case (Inl e1)
    with assms h have "s' = s1" by (simp add: sync_def)
    with u1 show ?thesis by simp
  next
    case (Inr x)
    show ?thesis
    proof (cases r2)
      case (Inl e2)
      with assms h t Inr have "s' = s2" by (simp add: sync_def)
      with u1 u2 show ?thesis by simp
    next
      case (Inr tok)
      with assms h t \<open>r1 = Inr x\<close> show ?thesis
        by (auto simp: sync_def split: prod.splits option.splits exn.splits)
    qed
  qed
qed

lemma sync_progress:
  assumes "sync env config w s = (Inr (w', exc), s')"
  shows "\<exists>start evs K F. trace s' = trace s @ evs \<and> files s' = files s \<and>
     readings evs = [start] \<and> saved evs = [] \<and> enum_calls evs \<le> 1000 \<and>
     item_events evs = map (\<lambda>u. (VideoId u, None)) (take K (enumerated evs)) @ F \<and>
     K \<le> length (enumerated evs) \<and>
     (case exc of
        None \<Rightarrow> w' = start \<and> K = length (enumerated evs) \<and> F = []
      | Some e \<Rightarrow>
          (K = 0 \<and> w' = w \<or> 0 < K \<and> update_time_of (enumerated evs ! (K - 1)) = Inr w') \<and>
          (F = [] \<or>
           (K < length (enumerated evs) \<and> F = [(VideoId (enumerated evs ! K), Some e)])))"
proof -
  obtain r1 s1 where h: "call (new_target_handler env config) s = (r1, s1)"
    by (cases "call (new_target_handler env config) s")
  obtain r2 s2 where t: "get_oauth_token env (panopto_site_address config)
      (panopto_oauth_credentials config) s1 = (r2, s2)"
    by (cases "get_oauth_token env (panopto_site_address config)
      (panopto_oauth_credentials config) s1")
  obtain start s3 where c: "utcnow env s2 = (start, s3)"
    by (cases "utcnow env s2")
  from assms h obtain x where r1: "r1 = Inr x"
    by (cases r1) (auto simp: sync_def)
  from assms h t r1 obtain tok where r2: "r2 = Inr tok"
    by (cases r2) (auto simp: sync_def)
  obtain exc0 nl s4 where p: "sync_pages env tok config w 1000 None w s3 = (exc0, nl, s4)"
    by (cases "sync_pages env tok config w 1000 None w s3")
  from sync_pages_progress [OF p] obtain evs K F where
    tr: "trace s4 = trace s3 @ evs" and fl: "files s4 = files s3" and
    q: "readings evs = []" "saved evs = []" "enum_calls evs \<le> 1000" and
    it: "item_events evs = map (\<lambda>u. (VideoId u, None)) (take K (enumerated evs)) @ F" and
    le: "K \<le> length (enumerated evs)" and
    wm: "K = 0 \<and> nl = w \<or> 0 < K \<and> update_time_of (enumerated evs ! (K - 1)) = Inr nl" and
    ex: "case exc0 of None \<Rightarrow> K = length (enumerated evs) \<and> F = []
         | Some e \<Rightarrow> F = [] \<or> (K < length (enumerated evs) \<and>
             F = [(VideoId (enumerated evs ! K), Some e)])"
    by blast
  have pre: "trace s3 = trace s @ [Ev_utcnow start]" "files s3 = files s"
    using call_unchanged [OF h] get_oauth_token_unchanged [OF t] utcnow_trace [OF c]
    by simp_all
  show ?thesis
  proof (cases exc0)
    case None
    with assms h t c p r1 r2 have "w' = start" "exc = None" "s' = s4"
      by (auto simp: sync_def)
    then show ?thesis
      apply (intro exI [of _ start] exI [of _ "Ev_utcnow start # evs"] exI [of _ K]
          exI [of _ F])
      using pre tr fl q it le ex None by simp
  next
    case (Some e)
    show ?thesis
    proof (cases e)
      case (HTTPError status body)
      with Some assms h t c p r1 r2 have res: "w' = nl" "exc = Some e"
        "s' = log_event (Ev_exception ''Received error response %s | %s'' e) s4"
        by (auto simp: sync_def)
      show ?thesis
        apply (intro exI [of _ start]
            exI [of _ "Ev_utcnow start # evs @
              [Ev_exception ''Received error response %s | %s'' e]"]
            exI [of _ K] exI [of _ F])
        using pre tr fl q it le ex wm Some res by simp
    next
      case ValueError
      with Some assms h t c p r1 r2 have res: "w' = nl" "exc = Some e" "s' = s4"
        by (auto simp: sync_def)
      show ?thesis
        apply (intro exI [of _ start] exI [of _ "Ev_utcnow start # evs"] exI [of _ K]
            exI [of _ F])
        using pre tr fl q it le ex wm Some res by simp
    next
      case OverflowError
      with Some assms h t c p r1 r2 have res: "w' = nl" "exc = Some e" "s' = s4"
        by (auto simp: sync_def)
      show ?thesis
        apply (intro exI [of _ start] exI [of _ "Ev_utcnow start # evs"] exI [of _ K]
            exI [of _ F])
        using pre tr fl q it le ex wm Some res by simp
    next
      case (OtherException m)
      with Some assms h t c p r1 r2 have res: "w' = nl" "exc = Some e" "s' = s4"
        by (auto simp: sync_def)
      show ?thesis
        apply (intro exI [of _ start] exI [of _ "Ev_utcnow start # evs"] exI [of _ K]
            exI [of _ F])
        using pre tr fl q it le ex wm Some res by simp
    qed
  qed
qed

lemma applied_count_ok:
  "applied_count evs = length (filter (\<lambda>p. snd p = None) (item_events evs))"
  by (simp add: applied_count_def)

lemma filter_ok_map:
  "filter (\<lambda>p. snd p = None) (map (\<lambda>u. (VideoId u, None)) us) = map (\<lambda>u. (VideoId u, None)) us"
  by (induction us) simp_all

lemma sync_pages_unfold:
  "0 < n \<Longrightarrow>
   sync_pages env tok config w n nt nl s =
     (case get_ids_to_update env tok (panopto_site_address config) w nt s of
        (Inl ex, s1) \<Rightarrow> (Some ex, nl, s1)
      | (Inr get_ids_response, s1) \<Rightarrow>
          (case sync_updates env tok config (Updates get_ids_response) nl s1 of
             (Some ex, t, s2) \<Rightarrow> (Some ex, t, s2)
           | (None, t, s2) \<Rightarrow>
               (case NextToken get_ids_response of
                  None \<Rightarrow> (None, t, s2)
                | Some tok' \<Rightarrow> sync_pages env tok config w (n - 1) (Some tok') t s2)))"
  by (cases n) (simp_all split: prod.splits sum.splits option.splits)

lemmas ex_eval =
  sync_def call_def get_oauth_token_def utcnow_def log_event_def sleep_def
  get_ids_to_update_def sync_video_by_id_def get_video_content_def
  ex_env_def ex_config_def ex_state_def at_time_def sync_pages_unfold
  update_time_of_def strptime_iso_def strptime_fields_def year_field_def num_field_def
  day_field_def literal_def is_digit_def parse_digits_def digit_val_def split_dot_0_def
  datetime_new_def valid_datetime_def days_in_month_def is_leap_def


lemma wait_files [simp]: "files (wait env d s) = files s"
  by (simp add: wait_def)


lemma persist_simps [simp]:
  "files (persist env config t s) =
     save_last_update_time t (home_dir env) (target_implementation config) (files s)"
  "trace (persist env config t s) = trace s @ [Ev_save t]"
  by (simp_all add: persist_def)

lemma sync_outcome:
  assumes "sync env config w s = (Inr (w', exc), s')"
    and "evs = new_events s s'" and "K = applied_count evs" and "E = enumerated evs"
  shows "trace s' = trace s @ evs \<and> files s' = files s \<and> saved evs = [] \<and>
     enum_calls evs \<le> 1000 \<and> K \<le> length E \<and>
     (\<exists>start. readings evs = [start] \<and> (exc = None \<longrightarrow> w' = start)) \<and>
     (exc \<noteq> None \<longrightarrow> K = 0 \<and> w' = w \<or> 0 < K \<and> update_time_of (E ! (K - 1)) = Inr w') \<and>
     (\<exists>F. item_events evs = map (\<lambda>u. (VideoId u, None)) (take K E) @ F \<and>
        (case exc of
           None \<Rightarrow> K = length E \<and> F = []
         | Some e \<Rightarrow> F = [] \<or> (K < length E \<and> F = [(VideoId (E ! K), Some e)])))"
proof -
  from sync_progress [OF assms(1)] obtain start evs0 K0 F where
    tr: "trace s' = trace s @ evs0" and fl: "files s' = files s" and
    q: "readings evs0 = [start]" "saved evs0 = []" "enum_calls evs0 \<le> 1000" and
    it: "item_events evs0 = map (\<lambda>u. (VideoId u, None)) (take K0 (enumerated evs0)) @ F" and
    le: "K0 \<le> length (enumerated evs0)" and
    ex: "case exc of
        None \<Rightarrow> w' = start \<and> K0 = length (enumerated evs0) \<and> F = []
      | Some e \<Rightarrow>
          (K0 = 0 \<and> w' = w \<or> 0 < K0 \<and> update_time_of (enumerated evs0 ! (K0 - 1)) = Inr w') \<and>
          (F = [] \<or>
           (K0 < length (enumerated evs0) \<and> F = [(VideoId (enumerated evs0 ! K0), Some e)]))"
    by blast
  have evs: "evs = evs0" using new_events_append [OF tr] assms(2) by simp
  have "filter (\<lambda>p. snd p = None) F = []"
    using ex by (cases exc) auto
  then have K: "K = K0"
    using assms(3) it le by (simp add: evs filter_ok_map applied_count_ok)
  show ?thesis
    using tr fl q it le ex unfolding evs K assms(4)
    by (cases exc) auto
qed



lemma valid_at_time:
  "hh < 24 \<Longrightarrow> mm < 60 \<Longrightarrow> ss < 60 \<Longrightarrow> us < 1000000 \<Longrightarrow> valid_datetime (at_time hh mm ss us)"
  by (simp add: valid_datetime_def at_time_def days_in_month_def)

lemma fmt_0d_numeral:
  "fmt_0d (numeral k) n = fmt_0d (pred_numeral k) (n div 10) @ [digit_char (n mod 10)]"
proof -
  have e: "numeral k = Suc (pred_numeral k)" by (rule numeral_eq_Suc)
  show ?thesis unfolding e by simp
qed

lemmas iso_eval = isoformat_def at_time_def fmt_0d_numeral digit_char_def

lemma sync_returns:
  assumes "call (new_target_handler env config) s = (Inr (), s1)"
    and "get_oauth_token env (panopto_site_address config) (panopto_oauth_credentials config) s1
         = (Inr oauth_token, s2)"
  shows "\<exists>w' exc s'. sync env config w s = (Inr (w', exc), s')"
proof -
  obtain t3 s3 where c: "utcnow env s2 = (t3, s3)" by (cases "utcnow env s2")
  obtain exc nl s4 where p: "sync_pages env oauth_token config w 1000 None w s3 = (exc, nl, s4)"
    by (cases "sync_pages env oauth_token config w 1000 None w s3")
  show ?thesis
  proof (cases exc)
    case None
    with assms c p show ?thesis by (simp add: sync_def)
  next
    case (Some e)
    with assms c p show ?thesis by (cases e) (simp_all add: sync_def)
  qed
qed

lemma sync_raises_no_events:
  "sync env config w s = (Inl ex, s') \<Longrightarrow> new_events s s' = []"
  using sync_raises [of env config w s ex s'] by (simp add: new_events_def)

section \<open>The checkpoint store: loading and saving the watermark\<close>




text \<open>
  Claim C9, as the code has it. When the tracking file is missing, empty, or ends with
  a line terminator, saving a timestamp \<open>w\<close> appends \<open>isoformat w\<close> and a newline to the
  text of the file, the lines read back are the old lines followed by that one line,
  and loading then returns \<open>w\<close>.
\<close>

theorem save_then_load:
  assumes "valid_datetime w"
    and "old = (case fs (tracking_file home impl) of None \<Rightarrow> [] | Some content \<Rightarrow> content)"
    and "old = [] \<or> last old = CHR 0x0A \<or> last old = CHR 0x0D"
  shows "save_last_update_time w home impl fs =
           fs(tracking_file home impl \<mapsto> old @ isoformat w @ [CHR 0x0A]) \<and>
         readlines (old @ isoformat w @ [CHR 0x0A]) = readlines old @ [isoformat w @ [CHR 0x0A]] \<and>
         get_last_update_time home impl (save_last_update_time w home impl fs) = Inr w"
proof -
  have saved: "save_last_update_time w home impl fs =
           fs(tracking_file home impl \<mapsto> old @ isoformat w @ [CHR 0x0A])"
    using assms(2) by (simp add: save_last_update_time_def Let_def)
  have lines: "readlines (old @ isoformat w @ [CHR 0x0A]) =
           readlines old @ [isoformat w @ [CHR 0x0A]]"
    using assms(3) by (rule readlines_append_line)
  have "get_last_update_time home impl (save_last_update_time w home impl fs) =
          fromisoformat (strip (isoformat w @ [CHR 0x0A]))"
    by (simp add: saved get_last_update_time_def lines Let_def)
  also have "\<dots> = Inr w"
    using assms(1) by (simp add: strip_isoformat_line fromisoformat_isoformat)
  finally show ?thesis
    using saved lines by simp
qed

text \<open>
  Claim C9, instance: the file holds one saved watermark, and a timestamp with
  microseconds is saved after it.
\<close>

theorem save_then_load_witness:
  "valid_datetime \<lparr>year = 2020, month = 2, day = 29, hour = 12, minute = 34, second = 56,
                    microsecond = 789\<rparr> \<and>
   last (''2008-01-01T00:00:00'' @ [CHR 0x0A]) = CHR 0x0A \<and>
   get_last_update_time ''/home/u'' ''t''
     (save_last_update_time
        \<lparr>year = 2020, month = 2, day = 29, hour = 12, minute = 34, second = 56,
          microsecond = 789\<rparr>
        ''/home/u'' ''t''
        [''/home/u/.panopto-connector.t'' \<mapsto> ''2008-01-01T00:00:00'' @ [CHR 0x0A]]) =
   Inr \<lparr>year = 2020, month = 2, day = 29, hour = 12, minute = 34, second = 56,
        microsecond = 789\<rparr>"
proof -
  let ?w = "\<lparr>year = 2020, month = 2, day = 29, hour = 12, minute = 34, second = 56,
             microsecond = 789\<rparr>"
  let ?old = "''2008-01-01T00:00:00'' @ [CHR 0x0A]"
  let ?fs = "[''/home/u/.panopto-connector.t'' \<mapsto> ?old]"
  have v: "valid_datetime ?w"
    by (simp add: valid_datetime_def days_in_month_def is_leap_def)
  have old: "?old = (case ?fs (tracking_file ''/home/u'' ''t'') of None \<Rightarrow> []
                     | Some content \<Rightarrow> content)"
    by (simp add: ex_file)
  have ends: "?old = [] \<or> last ?old = CHR 0x0A \<or> last ?old = CHR 0x0D"
    by simp
  note r = save_then_load [where w = ?w and old = ?old and fs = ?fs and home = "''/home/u''"
      and impl = "''t''", OF v old ends, THEN conjunct2, THEN conjunct2]
  have l: "last ?old = CHR 0x0A" by simp
  from v l r show ?thesis by (intro conjI)
qed

text \<open>
  Claim C9 is stated for every prior content of the file. When the text does not end
  with a line terminator, the appended text continues the last line: that line is
  changed, no line is added, and loading raises \<open>ValueError\<close>.
\<close>

theorem save_then_load_unterminated:
  "get_last_update_time ''/home/u'' ''t''
     (save_last_update_time default_last_update_time ''/home/u'' ''t''
        [''/home/u/.panopto-connector.t'' \<mapsto> ''2008-01-01T00:00:00'']) = Inl ValueError \<and>
   readlines ''2008-01-01T00:00:00'' = [''2008-01-01T00:00:00''] \<and>
   readlines (''2008-01-01T00:00:00'' @ isoformat default_last_update_time @ [CHR 0x0A]) =
     [''2008-01-01T00:00:002008-01-01T00:00:00'' @ [CHR 0x0A]]"
proof -
  have iso: "isoformat default_last_update_time = ''2008-01-01T00:00:00''"
    by code_simp
  show ?thesis
    by (simp add: save_last_update_time_def get_last_update_time_def ex_file iso readlines_def
        strip_def py_isspace_def fromisoformat_def fromisoformat_fields_def)
qed

section \<open>A pass whose first page is empty\<close>

text \<open>
  Claim C7. When the handler and the token are obtained and the first call of
  \<open>get_ids_to_update\<close> returns no updates and no next token, \<open>sync\<close> returns no failure and
  the time read from the clock at its start. The pass adds to the trace that reading of the
  clock and one call of \<open>get_ids_to_update\<close>, and no call of \<open>sync_video_by_id\<close>.
\<close>

theorem sync_empty_page:
  assumes "call (new_target_handler env config) s = (Inr (), s1)"
    and "get_oauth_token env (panopto_site_address config) (panopto_oauth_credentials config) s1
         = (Inr oauth_token, s2)"
    and "utcnow env s2 = (start_time, s3)"
    and "get_ids_to_update env oauth_token (panopto_site_address config) last_update_time None s3
         = (Inr \<lparr>Updates = [], NextToken = None\<rparr>, s4)"
  shows "sync env config last_update_time s = (Inr (start_time, None), s4) \<and>
         new_events s s4 =
           [Ev_utcnow start_time,
            Ev_get_ids_to_update last_update_time None (Inr \<lparr>Updates = [], NextToken = None\<rparr>)] \<and>
         enum_calls (new_events s s4) = 1 \<and> item_events (new_events s s4) = []"
proof -
  have 1: "sync env config last_update_time s = (Inr (start_time, None), s4)"
    using assms by (simp add: sync_def sync_pages_unfold)
  have "trace s4 = trace s @ [Ev_utcnow start_time,
            Ev_get_ids_to_update last_update_time None (Inr \<lparr>Updates = [], NextToken = None\<rparr>)]"
    using call_unchanged [OF assms(1)] get_oauth_token_unchanged [OF assms(2)]
      utcnow_trace [OF assms(3)] get_ids_to_update_trace [OF assms(4)]
    by simp
  then have 2: "new_events s s4 = [Ev_utcnow start_time,
            Ev_get_ids_to_update last_update_time None (Inr \<lparr>Updates = [], NextToken = None\<rparr>)]"
    by (rule new_events_append)
  show ?thesis
    using 1 by (simp add: 2)
qed

text \<open>
  Claim C7, instance: the source has nothing to report; the watermark 09:00:00 becomes
  12:00:00.25, the time of the clock.
\<close>

theorem sync_empty_page_witness:
  "fst (sync world_empty_page ex_config (at_time 9 0 0 0) ex_state) =
     Inr (at_time 12 0 0 250000, None) \<and>
   enum_calls (new_events ex_state
     (snd (sync world_empty_page ex_config (at_time 9 0 0 0) ex_state))) = 1 \<and>
   item_events (new_events ex_state
     (snd (sync world_empty_page ex_config (at_time 9 0 0 0) ex_state))) = []"
proof -
  let ?s3 = "log_event (Ev_utcnow (at_time 12 0 0 250000)) ex_state"
  let ?s4 = "snd (get_ids_to_update world_empty_page ''token'' ''https://site''
                (at_time 9 0 0 0) None ?s3)"
  have h1: "call (new_target_handler world_empty_page ex_config) ex_state = (Inr (), ex_state)"
    by (simp add: ex_eval world_empty_page_def)
  have h2: "get_oauth_token world_empty_page (panopto_site_address ex_config)
              (panopto_oauth_credentials ex_config) ex_state = (Inr ''token'', ex_state)"
    by (simp add: ex_eval world_empty_page_def)
  have h3: "utcnow world_empty_page ex_state = (at_time 12 0 0 250000, ?s3)"
    by (simp add: ex_eval world_empty_page_def)
  have h4: "get_ids_to_update world_empty_page ''token'' (panopto_site_address ex_config)
              (at_time 9 0 0 0) None ?s3 = (Inr \<lparr>Updates = [], NextToken = None\<rparr>, ?s4)"
    by (simp add: ex_eval world_empty_page_def)
  from sync_empty_page [OF h1 h2 h3 h4] show ?thesis
    by simp
qed

section \<open>A pass with two updates\<close>

text \<open>
  Claim C1, as the code has it. The single page of the pass lists the updates \<open>a\<close> and
  \<open>b\<close> with the change timestamps \<open>T1\<close> and \<open>T2\<close>, \<open>T2\<close> later than \<open>T1\<close>; both are
  synchronized and there is no next token. Then \<open>sync\<close> returns no failure, \<open>a\<close> is
  synchronized before \<open>b\<close>, and the candidate watermark when the loop ends is \<open>T2\<close>; but
  with no failure \<open>sync\<close> replaces the candidate by the time read from the clock at its
  start, and that time is the watermark returned.
\<close>

theorem sync_two_updates:
  assumes "call (new_target_handler env config) s = (Inr (), s1)"
    and "get_oauth_token env (panopto_site_address config) (panopto_oauth_credentials config) s1
         = (Inr oauth_token, s2)"
    and "utcnow env s2 = (start_time, s3)"
    and "get_ids_to_update env oauth_token (panopto_site_address config) last_update_time None s3
         = (Inr \<lparr>Updates = [\<lparr>VideoId = a, UpdateTime = ta\<rparr>, \<lparr>VideoId = b, UpdateTime = tb\<rparr>],
                 NextToken = None\<rparr>, s4)"
    and "strptime_iso (split_dot_0 ta) = Inr T1"
    and "strptime_iso (split_dot_0 tb) = Inr T2"
    and "dt_less T1 T2"
    and "sync_video_by_id env oauth_token config a s4 = (Inr (), s5)"
    and "sync_video_by_id env oauth_token config b
           (sleep env 2000000 (log_event (Ev_sync_video_by_id a None) s5)) = (Inr (), s6)"
    and "s7 = sleep env 2000000 (log_event (Ev_sync_video_by_id b None) s6)"
  shows "sync env config last_update_time s = (Inr (start_time, None), s7) \<and>
         item_events (new_events s s7) = [(a, None), (b, None)] \<and>
         sync_pages env oauth_token config last_update_time 1000 None last_update_time s3
           = (None, T2, s7)"
proof -
  have p: "sync_pages env oauth_token config last_update_time 1000 None last_update_time s3
           = (None, T2, s7)"
    using assms(4-10) by (simp add: sync_pages_unfold)
  have 1: "sync env config last_update_time s = (Inr (start_time, None), s7)"
    using assms(1-3) p by (simp add: sync_def)
  have "trace s7 = trace s @ [Ev_utcnow start_time,
      Ev_get_ids_to_update last_update_time None
        (Inr \<lparr>Updates = [\<lparr>VideoId = a, UpdateTime = ta\<rparr>, \<lparr>VideoId = b, UpdateTime = tb\<rparr>],
              NextToken = None\<rparr>),
      Ev_sync_video_by_id a None, Ev_sleep 2000000, Ev_sync_video_by_id b None, Ev_sleep 2000000]"
    using call_unchanged [OF assms(1)] get_oauth_token_unchanged [OF assms(2)]
      utcnow_trace [OF assms(3)] get_ids_to_update_trace [OF assms(4)]
      sync_video_by_id_unchanged [OF assms(8)] sync_video_by_id_unchanged [OF assms(9)]
    by (simp add: assms(10))
  then have "item_events (new_events s s7) = [(a, None), (b, None)]"
    by (simp add: new_events_append)
  with 1 p show ?thesis by simp
qed

text \<open>
  Claim C1, instance: two updates changed at 10:00:00.123 and 10:00:05.999, a pass started
  at 12:00:00.25.
\<close>

theorem sync_two_updates_witness:
  "strptime_iso (split_dot_0 ''2020-01-01T10:00:00.1230000'') = Inr (at_time 10 0 0 0) \<and>
   strptime_iso (split_dot_0 ''2020-01-01T10:00:05.9990000'') = Inr (at_time 10 0 5 0) \<and>
   dt_less (at_time 10 0 0 0) (at_time 10 0 5 0) \<and>
   fst (sync world_two_updates ex_config (at_time 9 0 0 0) ex_state) =
     Inr (at_time 12 0 0 250000, None) \<and>
   item_events (new_events ex_state
     (snd (sync world_two_updates ex_config (at_time 9 0 0 0) ex_state))) =
     [(''a'', None), (''b'', None)] \<and>
   fst (snd (sync_pages world_two_updates ''token'' ex_config (at_time 9 0 0 0) 1000 None
     (at_time 9 0 0 0) (log_event (Ev_utcnow (at_time 12 0 0 250000)) ex_state))) =
     at_time 10 0 5 0"
proof -
  let ?env = world_two_updates
  let ?s3 = "log_event (Ev_utcnow (at_time 12 0 0 250000)) ex_state"
  let ?s4 = "snd (get_ids_to_update ?env ''token'' ''https://site'' (at_time 9 0 0 0) None ?s3)"
  let ?s5 = "snd (sync_video_by_id ?env ''token'' ex_config ''a'' ?s4)"
  let ?s6 = "snd (sync_video_by_id ?env ''token'' ex_config ''b''
                (sleep ?env 2000000 (log_event (Ev_sync_video_by_id ''a'' None) ?s5)))"
  let ?s7 = "sleep ?env 2000000 (log_event (Ev_sync_video_by_id ''b'' None) ?s6)"
  have h1: "call (new_target_handler ?env ex_config) ex_state = (Inr (), ex_state)"
    by (simp add: ex_eval world_two_updates_def)
  have h2: "get_oauth_token ?env (panopto_site_address ex_config)
              (panopto_oauth_credentials ex_config) ex_state = (Inr ''token'', ex_state)"
    by (simp add: ex_eval world_two_updates_def)
  have h3: "utcnow ?env ex_state = (at_time 12 0 0 250000, ?s3)"
    by (simp add: ex_eval world_two_updates_def)
  have h4: "get_ids_to_update ?env ''token'' (panopto_site_address ex_config)
              (at_time 9 0 0 0) None ?s3 =
            (Inr \<lparr>Updates = [\<lparr>VideoId = ''a'', UpdateTime = ''2020-01-01T10:00:00.1230000''\<rparr>,
                              \<lparr>VideoId = ''b'', UpdateTime = ''2020-01-01T10:00:05.9990000''\<rparr>],
                   NextToken = None\<rparr>, ?s4)"
    by (simp add: ex_eval world_two_updates_def two_updates_def)
  have h5: "strptime_iso (split_dot_0 ''2020-01-01T10:00:00.1230000'') = Inr (at_time 10 0 0 0)"
    by (simp add: ex_eval)
  have h6: "strptime_iso (split_dot_0 ''2020-01-01T10:00:05.9990000'') = Inr (at_time 10 0 5 0)"
    by (simp add: ex_eval)
  have h7: "dt_less (at_time 10 0 0 0) (at_time 10 0 5 0)"
    by (simp add: dt_less_def dt_key_def at_time_def)
  have h8: "sync_video_by_id ?env ''token'' ex_config ''a'' ?s4 = (Inr (), ?s5)"
    by (simp add: ex_eval world_two_updates_def)
  have h9: "sync_video_by_id ?env ''token'' ex_config ''b''
              (sleep ?env 2000000 (log_event (Ev_sync_video_by_id ''a'' None) ?s5)) =
            (Inr (), ?s6)"
    by (simp add: ex_eval world_two_updates_def)
  from sync_two_updates [OF h1 h2 h3 h4 h5 h6 h7 h8 h9 refl] h5 h6 h7 show ?thesis
    by simp
qed

text \<open>
  Claim C1 says that the watermark returned is \<open>T2\<close>. In the pass of the instance above
  \<open>T2\<close> is 10:00:05 and \<open>sync\<close> returns 12:00:00.25, the time at which it started.
\<close>

theorem sync_two_updates_returns_start_time:
  "update_time_of \<lparr>VideoId = ''a'', UpdateTime = ''2020-01-01T10:00:00.1230000''\<rparr> =
     Inr (at_time 10 0 0 0) \<and>
   update_time_of \<lparr>VideoId = ''b'', UpdateTime = ''2020-01-01T10:00:05.9990000''\<rparr> =
     Inr (at_time 10 0 5 0) \<and>
   dt_less (at_time 10 0 0 0) (at_time 10 0 5 0) \<and>
   fst (sync world_two_updates ex_config (at_time 9 0 0 0) ex_state) =
     Inr (at_time 12 0 0 250000, None) \<and>
   at_time 12 0 0 250000 \<noteq> at_time 10 0 5 0"
  by (simp add: ex_eval world_two_updates_def two_updates_def dt_less_def dt_key_def)

section \<open>A pass that fails before anything was applied\<close>



section \<open>A pass that fails after some items were applied\<close>

text \<open>
  Claim C4. Take a pass in which some call of \<open>sync_video_by_id\<close> raised \<open>e\<close>. Let \<open>E\<close> be
  the updates the source listed during the pass, in order, and \<open>K\<close> the number of calls of
  \<open>sync_video_by_id\<close> that returned normally. Then \<open>sync\<close> returns the failure \<open>e\<close>; the
  calls made are those for the first \<open>K\<close> updates of \<open>E\<close>, in order, followed by the
  failed call for update \<open>K + 1\<close>, and none after it; and the watermark returned is the
  change timestamp of update \<open>K\<close> as \<open>sync\<close> reads it (the watermark given to \<open>sync\<close>
  when \<open>K\<close> is 0). Lists are indexed from 0, so update \<open>K\<close> is \<open>E ! (K - 1)\<close> and update
  \<open>K + 1\<close> is \<open>E ! K\<close>.
\<close>

theorem partial_progress_preserved:
  assumes "sync env config w s = (r, s')"
    and "evs = new_events s s'" and "K = applied_count evs" and "E = enumerated evs"
    and "(v, Some e) \<in> set (item_events evs)"
  shows "\<exists>w'. r = Inr (w', Some e) \<and> K < length E \<and> v = VideoId (E ! K) \<and>
         item_events evs = map (\<lambda>u. (VideoId u, None)) (take K E) @ [(v, Some e)] \<and>
         (K = 0 \<longrightarrow> w' = w) \<and>
         (0 < K \<longrightarrow> update_time_of (E ! (K - 1)) = Inr w')"
proof -
  have "\<exists>w' exc. r = Inr (w', exc)"
  proof (cases r)
    case (Inl ex)
    with assms(1) have "new_events s s' = []" by (simp add: sync_raises_no_events)
    with assms(2,5) show ?thesis by simp
  next
    case (Inr p)
    then show ?thesis by (cases p) simp
  qed
  then obtain w' exc where r: "r = Inr (w', exc)" by blast
  from sync_outcome [OF assms(1) [unfolded r] assms(2-4)] obtain F where
    wm: "exc \<noteq> None \<longrightarrow> K = 0 \<and> w' = w \<or> 0 < K \<and> update_time_of (E ! (K - 1)) = Inr w'" and
    it: "item_events evs = map (\<lambda>u. (VideoId u, None)) (take K E) @ F" and
    ex: "case exc of None \<Rightarrow> K = length E \<and> F = []
         | Some e \<Rightarrow> F = [] \<or> (K < length E \<and> F = [(VideoId (E ! K), Some e)])"
    by blast
  from assms(5) it have "(v, Some e) \<in> set F" by auto
  with ex have "exc = Some e \<and> K < length E \<and> F = [(v, Some e)] \<and> v = VideoId (E ! K)"
    by (cases exc) auto
  with wm it r show ?thesis by auto
qed

text \<open>
  Claim C4, instance: of two updates the second cannot be fetched. \<open>K\<close> is 1 and the
  watermark returned is 10:00:00, the change timestamp of the first update.
\<close>

theorem partial_progress_preserved_witness:
  "fst (sync world_b_fails ex_config (at_time 9 0 0 0) ex_state) =
     Inr (at_time 10 0 0 0, Some (HTTPError 500 ''Internal Server Error'')) \<and>
   (''b'', Some (HTTPError 500 ''Internal Server Error'')) \<in> set (item_events (new_events ex_state
     (snd (sync world_b_fails ex_config (at_time 9 0 0 0) ex_state)))) \<and>
   enumerated (new_events ex_state
     (snd (sync world_b_fails ex_config (at_time 9 0 0 0) ex_state))) = two_updates \<and>
   applied_count (new_events ex_state
     (snd (sync world_b_fails ex_config (at_time 9 0 0 0) ex_state))) = 1 \<and>
   update_time_of (two_updates ! 0) = Inr (at_time 10 0 0 0) \<and>
   item_events (new_events ex_state
     (snd (sync world_b_fails ex_config (at_time 9 0 0 0) ex_state))) =
     [(''a'', None), (''b'', Some (HTTPError 500 ''Internal Server Error''))]"
proof -
  let ?r = "sync world_b_fails ex_config (at_time 9 0 0 0) ex_state"
  have r1: "fst ?r = Inr (at_time 10 0 0 0, Some (HTTPError 500 ''Internal Server Error''))"
    by (simp add: ex_eval world_b_fails_def two_updates_def)
  have r: "?r = (fst ?r, snd ?r)" by simp
  have ev: "new_events ex_state (snd ?r) =
      [Ev_utcnow (at_time 12 0 0 250000),
       Ev_get_ids_to_update (at_time 9 0 0 0) None (Inr \<lparr>Updates = two_updates, NextToken = None\<rparr>),
       Ev_sync_video_by_id ''a'' None, Ev_sleep 2000000,
       Ev_sync_video_by_id ''b'' (Some (HTTPError 500 ''Internal Server Error'')),
       Ev_exception ''Received error response %s | %s'' (HTTPError 500 ''Internal Server Error'')]"
    by (simp add: ex_eval world_b_fails_def two_updates_def new_events_def)
  have m: "(''b'', Some (HTTPError 500 ''Internal Server Error'')) \<in>
           set (item_events (new_events ex_state (snd ?r)))"
    by (simp add: ev)
  have k: "applied_count (new_events ex_state (snd ?r)) = 1"
    by (simp add: ev applied_count_ok)
  from partial_progress_preserved [OF r refl refl refl m] r1 m k show ?thesis
    by (simp add: ev)
qed

section \<open>The resolution of the watermark\<close>

lemma digit_run:
  assumes "\<forall>c\<in>set ds. is_digit c" and "r = [] \<or> \<not> is_digit (hd r)"
  shows "takeWhile is_digit (ds @ r) = ds" and "dropWhile is_digit (ds @ r) = r"
  using assms by (cases r; simp add: takeWhile_append2 dropWhile_append2)+

lemma num_field_fmt_0d:
  assumes "v < 100" "lo \<le> v" "v \<le> hi" "r = [] \<or> \<not> is_digit (hd r)"
  shows "num_field lo hi (fmt_0d 2 v @ r) = Some (v, r)"
proof -
  have d: "\<forall>c\<in>set (fmt_0d 2 v). is_digit c" by (auto dest: fmt_0d_digits)
  have p: "parse_digits (fmt_0d 2 v) = Some v"
    using assms(1) by (simp add: parse_digits_fmt_0d)
  show ?thesis
    using assms(2,3) by (simp add: num_field_def digit_run [OF d assms(4)] length_fmt_0d p)
qed

lemma year_field_fmt_0d:
  assumes "v < 10000" "r = [] \<or> \<not> is_digit (hd r)"
  shows "year_field (fmt_0d 4 v @ r) = Some (v, r)"
proof -
  have d: "\<forall>c\<in>set (fmt_0d 4 v). is_digit c" by (auto dest: fmt_0d_digits)
  have p: "parse_digits (fmt_0d 4 v) = Some v"
    using assms(1) by (simp add: parse_digits_fmt_0d)
  show ?thesis
    by (simp add: year_field_def digit_run [OF d assms(2)] length_fmt_0d p)
qed

lemma not_digit_separators:
  "\<not> is_digit (CHR ''-'')" "\<not> is_digit (CHR ''T'')" "\<not> is_digit (CHR '':'')"
  "\<not> is_digit (CHR ''.'')" "\<not> is_digit (CHR '' '')"
  by (simp_all add: is_digit_def digit_val_def)

lemma day_field_fmt_0d:
  assumes "1 \<le> v" "v \<le> 31" "r = [] \<or> \<not> is_digit (hd r)"
  shows "day_field (fmt_0d 2 v @ r) = Some (v, r)"
proof -
  have f: "fmt_0d 2 v = [digit_char (v div 10), digit_char v]"
    by (simp add: numeral_2_eq_2 digit_char_def)
  have ns: "digit_char (v div 10) \<noteq> CHR '' ''"
    using is_digit_digit_char [of "v div 10"] not_digit_separators(5) by auto
  have "day_field (fmt_0d 2 v @ r) = num_field 1 31 (fmt_0d 2 v @ r)"
    using ns by (simp add: f day_field_def)
  then show ?thesis
    using assms by (simp add: num_field_fmt_0d)
qed

lemma strptime_fields_isoformat:
  assumes "valid_datetime d" "microsecond d = 0"
  shows "strptime_fields (isoformat d) =
         Some (year d, month d, day d, hour d, minute d, second d)"
proof -
  from assms(1) have b: "year d < 10000" "1 \<le> month d" "month d \<le> 12" "1 \<le> day d"
    "day d \<le> 31" "hour d \<le> 23" "minute d \<le> 59" "second d \<le> 61"
    using valid_days_le_31 [OF assms(1)] by (simp_all add: valid_datetime_def)
  show ?thesis
    using b assms(2)
    by (simp add: strptime_fields_def isoformat_def year_field_fmt_0d num_field_fmt_0d
        day_field_fmt_0d not_digit_separators literal_def
        num_field_fmt_0d [where r = "[]", simplified])
qed

lemma strptime_iso_isoformat:
  "valid_datetime d \<Longrightarrow> microsecond d = 0 \<Longrightarrow> strptime_iso (isoformat d) = Inr d"
  using datetime_new_fields [of d]
  by (simp add: strptime_iso_def strptime_fields_isoformat)

lemma split_dot_0_isoformat:
  assumes "microsecond d = 0"
  shows "split_dot_0 (isoformat d @ ''.'' @ frac) = isoformat d"
proof -
  have "\<forall>c\<in>set (isoformat d). c \<noteq> CHR ''.''"
    using assms not_digit_separators(4) by (auto simp: isoformat_def dest: fmt_0d_digits)
  then show ?thesis
    by (simp add: split_dot_0_def takeWhile_append2)
qed

lemma strptime_iso_whole:
  "strptime_iso s = Inr t \<Longrightarrow> microsecond t = 0 \<and> valid_datetime t"
  by (auto simp: strptime_iso_def datetime_new_def Let_def split: option.splits if_splits)

text \<open>
  Claim C10, as the code has it. After each update that \<open>sync_video_by_id\<close> has
  synchronized, the candidate watermark is the update's \<open>UpdateTime\<close> as \<open>sync\<close> reads it:
  the text before the first full stop, parsed to whole seconds. So when \<open>sync\<close> returns a
  failure after at least one update was synchronized, the watermark returned is the time
  read from the last of them and has no microseconds. For an \<open>UpdateTime\<close> made of a
  timestamp in seconds, a full stop and any fraction, the time read is that timestamp,
  whatever the fraction: it is cut, not rounded, and is not later than any instant of that
  second. (When the failure comes before any update was synchronized, the watermark
  returned is the one \<open>sync\<close> was given, with whatever microseconds it has.)
\<close>

theorem candidate_is_truncated_update_time:
  "(sync_updates env tok config (us @ [u]) nl s = (None, nl', s1) \<longrightarrow>
      update_time_of u = Inr nl' \<and> microsecond nl' = 0) \<and>
   (sync env config w s = (Inr (w', Some e), s') \<and> 0 < applied_count (new_events s s') \<longrightarrow>
      update_time_of
        (enumerated (new_events s s') ! (applied_count (new_events s s') - 1)) = Inr w' \<and>
      microsecond w' = 0) \<and>
   (valid_datetime d \<and> microsecond d = 0 \<and> UpdateTime u = isoformat d @ ''.'' @ frac \<longrightarrow>
      update_time_of u = Inr d \<and> (\<forall>us. dt_le d (d\<lparr>microsecond := us\<rparr>)))"
proof (intro conjI impI)
  assume a: "sync_updates env tok config (us @ [u]) nl s = (None, nl', s1)"
  from sync_updates_progress [OF a] obtain K where
    "K = 0 \<and> nl' = nl \<or> 0 < K \<and> update_time_of ((us @ [u]) ! (K - 1)) = Inr nl'"
    "K = length (us @ [u])"
    by auto
  then show 1: "update_time_of u = Inr nl'" by simp
  then show "microsecond nl' = 0"
    using strptime_iso_whole by (simp add: update_time_of_def)
next
  assume a: "sync env config w s = (Inr (w', Some e), s') \<and> 0 < applied_count (new_events s s')"
  from sync_outcome [OF a [THEN conjunct1] refl refl refl] a
  show 2: "update_time_of
        (enumerated (new_events s s') ! (applied_count (new_events s s') - 1)) = Inr w'"
    by auto
  then show "microsecond w' = 0"
    using strptime_iso_whole by (simp add: update_time_of_def)
next
  assume a: "valid_datetime d \<and> microsecond d = 0 \<and> UpdateTime u = isoformat d @ ''.'' @ frac"
  then show "update_time_of u = Inr d"
    using split_dot_0_isoformat [of d frac]
    by (simp add: update_time_of_def strptime_iso_isoformat)
  show "\<forall>us. dt_le d (d\<lparr>microsecond := us\<rparr>)"
    using a by (simp add: dt_le_def dt_key_def)
qed

text \<open>
  Claim C10, instances: the loop over two updates ends with the candidate 10:00:05 for
  the update changed at 10:00:05.999; a pass whose second update fails returns 10:00:00
  for the first one, changed at 10:00:00.123.
\<close>

theorem candidate_is_truncated_update_time_witness:
  "fst (sync_updates world_two_updates ''token'' ex_config
          ([\<lparr>VideoId = ''a'', UpdateTime = ''2020-01-01T10:00:00.1230000''\<rparr>] @
           [\<lparr>VideoId = ''b'', UpdateTime = ''2020-01-01T10:00:05.9990000''\<rparr>])
          (at_time 9 0 0 0) ex_state) = None \<and>
   fst (snd (sync_updates world_two_updates ''token'' ex_config
          ([\<lparr>VideoId = ''a'', UpdateTime = ''2020-01-01T10:00:00.1230000''\<rparr>] @
           [\<lparr>VideoId = ''b'', UpdateTime = ''2020-01-01T10:00:05.9990000''\<rparr>])
          (at_time 9 0 0 0) ex_state)) = at_time 10 0 5 0 \<and>
   update_time_of \<lparr>VideoId = ''b'', UpdateTime = ''2020-01-01T10:00:05.9990000''\<rparr> =
     Inr (at_time 10 0 5 0) \<and>
   fst (sync world_b_fails ex_config (at_time 9 0 0 250000) ex_state) =
     Inr (at_time 10 0 0 0, Some (HTTPError 500 ''Internal Server Error'')) \<and>
   applied_count (new_events ex_state
     (snd (sync world_b_fails ex_config (at_time 9 0 0 250000) ex_state))) = 1 \<and>
   update_time_of (enumerated (new_events ex_state
     (snd (sync world_b_fails ex_config (at_time 9 0 0 250000) ex_state))) ! (1 - 1)) =
     Inr (at_time 10 0 0 0) \<and>
   microsecond (at_time 10 0 0 0) = 0 \<and>
   valid_datetime (at_time 10 0 5 0) \<and>
   ''2020-01-01T10:00:05.9990000'' = isoformat (at_time 10 0 5 0) @ ''.'' @ ''9990000'' \<and>
   dt_le (at_time 10 0 5 0) (at_time 10 0 5 999000)"
proof -
  let ?ua = "\<lparr>VideoId = ''a'', UpdateTime = ''2020-01-01T10:00:00.1230000''\<rparr>"
  let ?ub = "\<lparr>VideoId = ''b'', UpdateTime = ''2020-01-01T10:00:05.9990000''\<rparr>"
  let ?l = "sync_updates world_two_updates ''token'' ex_config ([?ua] @ [?ub])
              (at_time 9 0 0 0) ex_state"
  let ?r = "sync world_b_fails ex_config (at_time 9 0 0 250000) ex_state"
  have l1: "fst ?l = None" and l2: "fst (snd ?l) = at_time 10 0 5 0"
    by (simp_all add: ex_eval world_two_updates_def)
  then have l: "?l = (None, at_time 10 0 5 0, snd (snd ?l))"
    by (simp add: prod_eq_iff)
  have r1: "fst ?r = Inr (at_time 10 0 0 0, Some (HTTPError 500 ''Internal Server Error''))"
    by (simp add: ex_eval world_b_fails_def two_updates_def)
  then have r: "?r = (Inr (at_time 10 0 0 0, Some (HTTPError 500 ''Internal Server Error'')), snd ?r)"
    by (simp add: prod_eq_iff)
  have k: "applied_count (new_events ex_state (snd ?r)) = 1"
    by (simp add: ex_eval world_b_fails_def two_updates_def new_events_def applied_count_ok)
  have v: "valid_datetime (at_time 10 0 5 0)"
    by (simp add: valid_at_time)
  have i: "''2020-01-01T10:00:05.9990000'' = isoformat (at_time 10 0 5 0) @ ''.'' @ ''9990000''"
    by (simp add: iso_eval)
  have m: "microsecond (at_time 10 0 5 0) = 0" "microsecond (at_time 10 0 0 0) = 0"
    by (simp_all add: at_time_def)
  note t = candidate_is_truncated_update_time
    [where env = world_two_updates and tok = "''token''" and config = ex_config
       and us = "[?ua]" and u = ?ub and nl = "at_time 9 0 0 0" and s = ex_state
       and nl' = "at_time 10 0 5 0" and ?s1.0 = "snd (snd ?l)"
       and d = "at_time 10 0 5 0" and frac = "''9990000''"]
  from t [THEN conjunct1, rule_format, OF l]
  have c1: "update_time_of ?ub = Inr (at_time 10 0 5 0)" by simp
  from t [THEN conjunct2, THEN conjunct2] v m i
  have "\<forall>us. dt_le (at_time 10 0 5 0) ((at_time 10 0 5 0)\<lparr>microsecond := us\<rparr>)"
    by simp
  then have "dt_le (at_time 10 0 5 0) ((at_time 10 0 5 0)\<lparr>microsecond := 999000\<rparr>)"
    by (rule spec)
  then have c3: "dt_le (at_time 10 0 5 0) (at_time 10 0 5 999000)"
    by (simp add: at_time_def)
  note t2 = candidate_is_truncated_update_time
    [where env = world_b_fails and config = ex_config and s = ex_state
       and w = "at_time 9 0 0 250000" and w' = "at_time 10 0 0 0"
       and e = "HTTPError 500 ''Internal Server Error''" and s' = "snd ?r",
     THEN conjunct2, THEN conjunct1, rule_format, OF conjI, OF r]
  from k have "0 < applied_count (new_events ex_state (snd ?r))" by simp
  from t2 [OF this] have c2: "update_time_of (enumerated (new_events ex_state (snd ?r)) ! (1 - 1)) =
     Inr (at_time 10 0 0 0)"
    unfolding k by (rule conjunct1)
  from l1 l2 c1 r1 k c2 m v i c3 show ?thesis
    by (intro conjI)
qed

text \<open>
  Claim C10 says that a watermark returned after an item-level failure always has
  whole-second resolution. A pass given the watermark 09:00:00.25 (the start time of an
  earlier pass) whose first update cannot be fetched returns 09:00:00.25.
\<close>

theorem first_item_failure_keeps_microseconds:
  "fst (sync world_a_fails ex_config (at_time 9 0 0 250000) ex_state) =
     Inr (at_time 9 0 0 250000, Some (HTTPError 500 ''Internal Server Error'')) \<and>
   item_events (new_events ex_state
     (snd (sync world_a_fails ex_config (at_time 9 0 0 250000) ex_state))) =
     [(''a'', Some (HTTPError 500 ''Internal Server Error''))] \<and>
   microsecond (at_time 9 0 0 250000) = 250000"
  by (simp add: ex_eval world_a_fails_def two_updates_def new_events_def)

section \<open>The ceiling of 1000 pages\<close>

lemma endless_pages:
  "\<exists>s' evs.
     sync_pages world_endless_pages ''token'' ex_config w n nt nl s =
       (None, (if n = 0 then nl else at_time 10 0 0 0), s') \<and>
     trace s' = trace s @ evs \<and> enum_calls evs = n \<and> applied_count evs = n \<and>
     warnings evs = [''Did not complete a sync in 1000 passes'']"
proof (induction n arbitrary: nt nl s)
  case 0
  show ?case
    by (intro exI [of _ "log_event (Ev_warning ''Did not complete a sync in 1000 passes'') s"]
        exI [of _ "[Ev_warning ''Did not complete a sync in 1000 passes'']"])
      (simp add: applied_count_ok)
next
  case (Suc n)
  let ?page = "\<lparr>Updates = [\<lparr>VideoId = ''a'', UpdateTime = ''2020-01-01T10:00:00''\<rparr>],
                NextToken = Some ''more''\<rparr>"
  let ?s2 = "sleep world_endless_pages 2000000 (log_event (Ev_sync_video_by_id ''a'' None)
      (log_event (Ev_get_ids_to_update w nt (Inr ?page)) (s\<lparr>world := Suc (world s)\<rparr>)))"
  have step: "sync_pages world_endless_pages ''token'' ex_config w (Suc n) nt nl s =
      sync_pages world_endless_pages ''token'' ex_config w n (Some ''more'') (at_time 10 0 0 0) ?s2"
    by (simp add: ex_eval world_endless_pages_def)
  from Suc.IH [of "Some ''more''" "at_time 10 0 0 0" ?s2] obtain s' evs where
    r: "sync_pages world_endless_pages ''token'' ex_config w n (Some ''more'') (at_time 10 0 0 0) ?s2
        = (None, (if n = 0 then at_time 10 0 0 0 else at_time 10 0 0 0), s')" and
    tr: "trace s' = trace ?s2 @ evs" and
    c: "enum_calls evs = n" "applied_count evs = n"
       "warnings evs = [''Did not complete a sync in 1000 passes'']"
    by blast
  show ?case
    apply (rule exI [of _ s'])
    apply (rule exI [of _ "[Ev_get_ids_to_update w nt (Inr ?page), Ev_sync_video_by_id ''a'' None,
        Ev_sleep 2000000] @ evs"])
    using step r tr c by (simp add: applied_count_ok)
qed

text \<open>
  Claim C2, on the code. The source answers every request with one update, changed at
  10:00:00, and a next token. The pass makes exactly 1000 calls of \<open>get_ids_to_update\<close>,
  synchronizes 1000 updates, logs the warning of the \<open>else\<close> clause and returns no failure.
  The watermark reached when the loop ends is 10:00:00, but \<open>sync\<close> returns 12:00:00.25,
  the time at which the pass started: with no exception set, the final assignment
  replaces the watermark reached.
\<close>

theorem ceiling_returns_start_time:
  "fst (sync world_endless_pages ex_config (at_time 9 0 0 0) ex_state) =
     Inr (at_time 12 0 0 250000, None) \<and>
   enum_calls (new_events ex_state
     (snd (sync world_endless_pages ex_config (at_time 9 0 0 0) ex_state))) = 1000 \<and>
   applied_count (new_events ex_state
     (snd (sync world_endless_pages ex_config (at_time 9 0 0 0) ex_state))) = 1000 \<and>
   warnings (new_events ex_state
     (snd (sync world_endless_pages ex_config (at_time 9 0 0 0) ex_state))) =
     [''Did not complete a sync in 1000 passes''] \<and>
   fst (snd (sync_pages world_endless_pages ''token'' ex_config (at_time 9 0 0 0) 1000 None
     (at_time 9 0 0 0) (snd (utcnow world_endless_pages ex_state)))) = at_time 10 0 0 0 \<and>
   at_time 12 0 0 250000 \<noteq> at_time 10 0 0 0"
proof -
  let ?env = world_endless_pages
  let ?w = "at_time 9 0 0 0"
  let ?s3 = "snd (utcnow ?env ex_state)"
  from endless_pages [of ?w 1000 None ?w ?s3] obtain s' evs where
    p: "sync_pages ?env ''token'' ex_config ?w 1000 None ?w ?s3 = (None, at_time 10 0 0 0, s')" and
    tr: "trace s' = trace ?s3 @ evs" and
    c: "enum_calls evs = 1000" "applied_count evs = 1000"
       "warnings evs = [''Did not complete a sync in 1000 passes'']"
    by auto
  have pre: "sync ?env ex_config ?w ex_state =
      (case sync_pages ?env ''token'' ex_config ?w 1000 None ?w ?s3 of
         (exception, new_last_update_time, s4) \<Rightarrow>
           (case exception of
              None \<Rightarrow> (Inr (at_time 12 0 0 250000, None), s4)
            | Some (HTTPError status body) \<Rightarrow>
                (Inr (new_last_update_time, exception),
                 log_event (Ev_exception ''Received error response %s | %s''
                   (HTTPError status body)) s4)
            | Some _ \<Rightarrow> (Inr (new_last_update_time, exception), s4)))"
    by (simp add: sync_def call_def get_oauth_token_def utcnow_def log_event_def
        world_endless_pages_def ex_env_def ex_config_def ex_state_def)
  have r: "sync ?env ex_config ?w ex_state = (Inr (at_time 12 0 0 250000, None), s')"
    unfolding pre p by simp
  have "trace ?s3 = [Ev_utcnow (at_time 12 0 0 250000)]"
    by (simp add: utcnow_def call_def world_endless_pages_def ex_env_def ex_state_def)
  with tr have "trace s' = trace ex_state @ Ev_utcnow (at_time 12 0 0 250000) # evs"
    by (simp add: ex_state_def)
  then have ne: "new_events ex_state s' = Ev_utcnow (at_time 12 0 0 250000) # evs"
    by (rule new_events_append)
  have d: "at_time 12 0 0 250000 \<noteq> at_time 10 0 0 0"
    by (simp add: at_time_def)
  show ?thesis
    unfolding r p using c d by (simp add: ne applied_count_ok)
qed

section \<open>Failures outside the try block\<close>

text \<open>
  Claim C6, on the code. When the handler and the token are obtained, \<open>sync\<close> always
  returns: every exception raised by the enumeration or by an item is caught and returned
  beside the watermark. When \<open>get_oauth_token\<close> raises, the exception leaves \<open>sync\<close>, which
  calls it before the \<open>try\<close>, then the turn of the loop and \<open>run\<close> itself: nothing is
  logged or saved, there is no wait, and the turn adds only its reading of the clock to
  the trace.
\<close>

theorem token_failure_ends_run:
  "(call (new_target_handler env config) s = (Inr (), s1) \<and>
    get_oauth_token env (panopto_site_address config) (panopto_oauth_credentials config) s1
      = (Inr oauth_token, s2) \<longrightarrow>
      (\<exists>w' exc s'. sync env config w s = (Inr (w', exc), s'))) \<and>
   (utcnow env s0 = (t0, s) \<and>
    call (new_target_handler env config) s = (Inr (), s1) \<and>
    get_oauth_token env (panopto_site_address config) (panopto_oauth_credentials config) s1
      = (Inl ex, s2) \<longrightarrow>
      sync env config w s = (Inl ex, s2) \<and>
      run_pass env config w s0 = (Inl ex, s2) \<and>
      run_loop env config (Suc n) w s0 = (Inl ex, s2) \<and>
      files s2 = files s0 \<and> new_events s0 s2 = [Ev_utcnow t0])"
proof (intro conjI impI)
  assume a: "call (new_target_handler env config) s = (Inr (), s1) \<and>
    get_oauth_token env (panopto_site_address config) (panopto_oauth_credentials config) s1
      = (Inr oauth_token, s2)"
  then show "\<exists>w' exc s'. sync env config w s = (Inr (w', exc), s')"
    by (blast intro: sync_returns)
next
  assume a: "utcnow env s0 = (t0, s) \<and>
    call (new_target_handler env config) s = (Inr (), s1) \<and>
    get_oauth_token env (panopto_site_address config) (panopto_oauth_credentials config) s1
      = (Inl ex, s2)"
  then have u: "utcnow env s0 = (t0, s)"
    and h: "call (new_target_handler env config) s = (Inr (), s1)"
    and t: "get_oauth_token env (panopto_site_address config)
              (panopto_oauth_credentials config) s1 = (Inl ex, s2)"
    by simp_all
  show 1: "sync env config w s = (Inl ex, s2)"
    using h t by (simp add: sync_def)
  show 2: "run_pass env config w s0 = (Inl ex, s2)"
    using u 1 by (simp add: run_pass_def)
  show "run_loop env config (Suc n) w s0 = (Inl ex, s2)"
    using 2 by simp
  have tr: "trace s2 = trace s0 @ [Ev_utcnow t0]" and fl: "files s2 = files s0"
    using utcnow_trace [OF u] call_unchanged [OF h] get_oauth_token_unchanged [OF t]
    by simp_all
  show "files s2 = files s0" by (rule fl)
  show "new_events s0 s2 = [Ev_utcnow t0]"
    using tr by (rule new_events_append)
qed

text \<open>
  Claim C6, instance: the token request is answered with status 401. The first turn of
  \<open>run\<close> ends with that \<open>HTTPError\<close>, and the tracking file is not written.
\<close>

theorem token_failure_ends_run_witness:
  "fst (get_oauth_token world_token_rejected ''https://site''
          (panopto_oauth_credentials ex_config) (snd (utcnow world_token_rejected ex_state))) =
     Inl (HTTPError 401 ''Unauthorized'') \<and>
   fst (run_loop world_token_rejected ex_config (Suc 0) (at_time 9 0 0 0) ex_state) =
     Inl (HTTPError 401 ''Unauthorized'') \<and>
   files (snd (run_loop world_token_rejected ex_config (Suc 0) (at_time 9 0 0 0) ex_state)) =
     Map.empty \<and>
   new_events ex_state
     (snd (run_loop world_token_rejected ex_config (Suc 0) (at_time 9 0 0 0) ex_state)) =
     [Ev_utcnow (at_time 12 0 0 250000)] \<and>
   fst (sync world_empty_page ex_config (at_time 9 0 0 0) ex_state) =
     Inr (at_time 12 0 0 250000, None)"
proof -
  let ?env = world_token_rejected
  let ?s = "snd (utcnow ?env ex_state)"
  have u: "utcnow ?env ex_state = (at_time 12 0 0 250000, ?s)"
    by (simp add: ex_eval world_token_rejected_def)
  have h: "call (new_target_handler ?env ex_config) ?s = (Inr (), ?s)"
    by (simp add: ex_eval world_token_rejected_def)
  have t: "get_oauth_token ?env (panopto_site_address ex_config)
             (panopto_oauth_credentials ex_config) ?s = (Inl (HTTPError 401 ''Unauthorized''), ?s)"
    by (simp add: ex_eval world_token_rejected_def)
  have g: "fst (get_oauth_token ?env ''https://site''
          (panopto_oauth_credentials ex_config) ?s) = Inl (HTTPError 401 ''Unauthorized'')"
    by (simp add: ex_eval world_token_rejected_def)
  note r = token_failure_ends_run [where env = ?env and config = ex_config and ?s0.0 = ex_state
      and s = ?s and ?s1.0 = ?s and ?s2.0 = ?s and ?t0.0 = "at_time 12 0 0 250000"
      and ex = "HTTPError 401 ''Unauthorized''" and w = "at_time 9 0 0 0" and n = 0,
      THEN conjunct2, rule_format, OF conjI, OF u conjI, OF h t]
  have f: "files ex_state = Map.empty" by (simp add: ex_state_def)
  have h2: "call (new_target_handler world_empty_page ex_config) ex_state = (Inr (), ex_state)"
    by (simp add: ex_eval world_empty_page_def)
  have t2: "get_oauth_token world_empty_page (panopto_site_address ex_config)
             (panopto_oauth_credentials ex_config) ex_state = (Inr ''token'', ex_state)"
    by (simp add: ex_eval world_empty_page_def)
  have e: "fst (sync world_empty_page ex_config (at_time 9 0 0 0) ex_state) =
     Inr (at_time 12 0 0 250000, None)"
    using token_failure_ends_run [where env = world_empty_page and config = ex_config
      and s = ex_state and ?s1.0 = ex_state and ?s2.0 = ex_state and oauth_token = "''token''"
      and w = "at_time 9 0 0 0", THEN conjunct1, rule_format, OF conjI, OF h2 t2]
    by (simp add: ex_eval world_empty_page_def)
  from r g f e show ?thesis by simp
qed

section \<open>The sequence of saved watermarks\<close>














end
